theory Spec2Isabelle
  imports Main "HOL-Library.Mapping" "HOL-Library.AList_Mapping"
begin

section \<open>Shared standard-library behaviour\<close>

text \<open>
  The two programs of the repository (\<^verbatim>\<open>tools/mcp/simple-mcp-client/simple-mcp-client.cpp\<close>
  and \<^verbatim>\<open>examples/simple-function-call/simple-function-call.cpp\<close>) read standard input
  line by line, split lines at white space and print with \<^verbatim>\<open>printf\<close>. This section
  models the few C and C++ library operations they rely on.
\<close>

text \<open>\<^verbatim>\<open>isspace\<close> in the C locale: space, \<^verbatim>\<open>\t \n \v \f \r\<close>.\<close>

definition isspace :: "char \<Rightarrow> bool" where
  "isspace c = (c = CHR '' '' \<or> c = CHR 0x09 \<or> c = CHR 0x0A \<or> c = CHR 0x0B
               \<or> c = CHR 0x0C \<or> c = CHR 0x0D)"

definition isdigit :: "char \<Rightarrow> bool" where
  "isdigit c = (c \<in> set ''0123456789'')"

definition digit_val :: "char \<Rightarrow> int" where
  "digit_val c = of_char c - 48"

text \<open>The value of a run of decimal digits, most significant first.\<close>

definition digits_val :: "string \<Rightarrow> int" where
  "digits_val ds = foldl (\<lambda>acc c. 10 * acc + digit_val c) 0 ds"

text \<open>
  \<^verbatim>\<open>std::stoi(const std::string&)\<close>: leading white space is skipped, an optional sign is
  read, then as many decimal digits as there are; what follows is ignored. It throws
  \<^verbatim>\<open>std::invalid_argument\<close> when there is no digit and \<^verbatim>\<open>std::out_of_range\<close> when the
  value is not an \<^verbatim>\<open>int\<close> (32 bits).
\<close>

datatype stoi_error = invalid_argument | out_of_range

definition stoi :: "string \<Rightarrow> stoi_error + int" where
  "stoi s =
     (let s1 = dropWhile isspace s;
          neg = (s1 \<noteq> [] \<and> hd s1 = CHR ''-'');
          s2 = (if s1 \<noteq> [] \<and> (hd s1 = CHR ''-'' \<or> hd s1 = CHR ''+'') then tl s1 else s1);
          ds = takeWhile isdigit s2;
          v = (if neg then - digits_val ds else digits_val ds)
      in if ds = [] then Inl invalid_argument
         else if v < - (2 ^ 31) \<or> 2 ^ 31 - 1 < v then Inl out_of_range
         else Inr v)"

text \<open>\<^verbatim>\<open>printf("%d")\<close> and \<^verbatim>\<open>printf("%zu")\<close>: decimal digits, a minus sign when negative.\<close>

fun show_nat :: "nat \<Rightarrow> string" where
  "show_nat n =
     (if n < 10 then [''0123456789'' ! n]
      else show_nat (n div 10) @ [''0123456789'' ! (n mod 10)])"

declare show_nat.simps [simp del]

definition show_int :: "int \<Rightarrow> string" where
  "show_int i = (if i < 0 then CHR ''-'' # show_nat (nat (- i)) else show_nat (nat i))"

text \<open>
  \<^verbatim>\<open>std::cin\<close>: the complete (newline-terminated) lines still to be read, the characters
  of a last line that has no newline, and whether the stream is still good.
  \<^verbatim>\<open>std::getline(is, line)\<close> stores the next line in \<^verbatim>\<open>line\<close>. At the end of the
  input it stores what is left (possibly nothing) and the stream stops being good; on a
  stream that is not good it leaves \<^verbatim>\<open>line\<close> as it was.
\<close>

record istream =
  pending :: "string list"
  partial :: string
  good :: bool

definition getline :: "istream \<Rightarrow> string \<Rightarrow> istream \<times> string" where
  "getline s line =
     (if \<not> good s then (s, line)
      else case pending s of
             l # ls \<Rightarrow> (s\<lparr>pending := ls\<rparr>, l)
           | [] \<Rightarrow> (s\<lparr>partial := [], good := False\<rparr>, partial s))"

text \<open>
  \<^verbatim>\<open>ss >> word\<close> on a string stream holding \<^verbatim>\<open>s\<close>: white space is skipped, the
  characters up to the next white space are the word (empty when none is left), and the
  rest stays in the stream.
\<close>

definition extract_word :: "string \<Rightarrow> string \<times> string" where
  "extract_word s =
     (let s1 = dropWhile isspace s
      in (takeWhile (\<lambda>c. \<not> isspace c) s1, dropWhile (\<lambda>c. \<not> isspace c) s1))"

section \<open>simple-mcp-client: data model\<close>

record ServerConfig =
  cfg_name :: string
  cfg_host :: string
  cfg_port :: int
  cfg_type :: string

record Config =
  servers :: "ServerConfig list"
  show_instructions :: bool

text \<open>\<^verbatim>\<open>mcp::tool\<close>, as far as the client reads it.\<close>

record tool =
  tool_name :: string
  tool_description :: string

text \<open>
  \<^verbatim>\<open>MCPServerConnection\<close>. The \<^verbatim>\<open>client\<close> member is the transport object; the model
  keeps the host and port it was built with (what \<^verbatim>\<open>get_host\<close> and \<^verbatim>\<open>get_port\<close> return).
\<close>

record MCPServerConnection =
  conn_name :: string
  conn_type :: string
  client_host :: string
  client_port :: int
  tools :: "tool list"

subsection \<open>parse_config\<close>

definition default_server :: ServerConfig where
  "default_server =
     \<lparr>cfg_name = ''default-agent'', cfg_host = ''localhost'', cfg_port = 8889,
      cfg_type = ''llama-agent''\<rparr>"

text \<open>
  The loop of \<^verbatim>\<open>parse_config\<close> over \<^verbatim>\<open>argv[i]\<close>, \<^verbatim>\<open>argc\<close> being the length of \<^verbatim>\<open>argv\<close>.
  An exception of \<^verbatim>\<open>std::stoi\<close> is not caught by \<^verbatim>\<open>parse_config\<close>: it is the \<open>Inl\<close> result.
\<close>

function parse_config_loop :: "nat \<Rightarrow> string list \<Rightarrow> Config \<Rightarrow> stoi_error + Config" where
  "parse_config_loop i argv config =
     (if i < length argv then
        if argv ! i = ''--add-server'' \<and> i + 4 < length argv then
          (case stoi (argv ! (i + 3)) of
             Inl e \<Rightarrow> Inl e
           | Inr port \<Rightarrow>
               parse_config_loop (i + 4 + 1) argv
                 (config\<lparr>servers := servers config @
                    [\<lparr>cfg_name = argv ! (i + 1), cfg_host = argv ! (i + 2), cfg_port = port,
                      cfg_type = argv ! (i + 4)\<rparr>]\<rparr>))
        else if argv ! i = ''--hide-instructions'' then
          parse_config_loop (i + 1) argv (config\<lparr>show_instructions := False\<rparr>)
        else parse_config_loop (i + 1) argv config
      else Inr config)"
  by pat_completeness auto
termination
  by (relation "measure (\<lambda>(i, argv, config). length argv - i)") auto

declare parse_config_loop.simps [simp del]

definition parse_config :: "string list \<Rightarrow> stoi_error + Config" where
  "parse_config argv =
     parse_config_loop 1 argv \<lparr>servers = [default_server], show_instructions = True\<rparr>"

section \<open>simple-mcp-client: effects\<close>

text \<open>
  What the client does to the outside world, in order: lines written to standard
  output and standard error, and the calls made on a provider's transport
  (\<^verbatim>\<open>mcp::sse_client\<close>). \<open>SseCallTool k\<close> is a call on the client of the \<open>k\<close>-th
  element of \<^verbatim>\<open>connected_servers\<close>. The JSON type of the library is the parameter \<open>'j\<close>.
\<close>

datatype 'j event =
    Stdout string
  | Stderr string
  | SseOpen string int
  | SseSetTimeout int
  | SseInitialize string string
  | SseGetTools
  | SseCallTool nat string 'j

text \<open>
  What one provider does when the client connects to it: the constructor or
  \<^verbatim>\<open>set_timeout\<close> throws, \<^verbatim>\<open>initialize\<close> throws (a timeout is such an exception) or
  returns false, \<^verbatim>\<open>get_tools\<close> throws, or the tool list arrives. The strings are the
  exceptions' \<^verbatim>\<open>what()\<close>.
\<close>

datatype connect_outcome =
    OpenThrows string
  | InitializeThrows string
  | InitializeFalse
  | GetToolsThrows string
  | ToolList "tool list"

text \<open>
  The collaborators that are not part of the repository: the providers (the outcome of
  the \<open>i\<close>-th connection attempt, and the answer of the \<open>k\<close>-th connected server to
  \<^verbatim>\<open>call_tool\<close>, \<open>Inl\<close> being an exception's \<^verbatim>\<open>what()\<close>) and the JSON library.
\<close>

record 'j mcp_env =
  handshake :: "nat \<Rightarrow> ServerConfig \<Rightarrow> connect_outcome"
  call_tool :: "nat \<Rightarrow> string \<Rightarrow> 'j \<Rightarrow> string + 'j"
  json_parse :: "string \<Rightarrow> string + 'j"
  json_object :: 'j
  json_dump :: "'j \<Rightarrow> string"

text \<open>
  The global state of the application (\<^verbatim>\<open>std::map\<close> as a finite mapping), with the input
  stream and the effects so far.
\<close>

record 'j globals =
  connected_servers :: "MCPServerConnection list"
  tool_to_server_map :: "(string, string) mapping"
  cin :: istream
  trace :: "'j event list"

definition emit :: "'j event \<Rightarrow> 'j globals \<Rightarrow> 'j globals" where
  "emit e g = g\<lparr>trace := trace g @ [e]\<rparr>"

definition out :: "string \<Rightarrow> 'j globals \<Rightarrow> 'j globals" where
  "out s g = emit (Stdout s) g"

definition err :: "string \<Rightarrow> 'j globals \<Rightarrow> 'j globals" where
  "err s g = emit (Stderr s) g"

text \<open>\<^verbatim>\<open>s.c_str()\<close> printed with \<^verbatim>\<open>%s\<close>: the characters before the first NUL.\<close>

definition c_str :: "string \<Rightarrow> string" where
  "c_str s = takeWhile (\<lambda>c. c \<noteq> CHR 0x00) s"

definition nl :: string where
  "nl = [CHR 0x0A]"

definition sq :: string where
  "sq = [CHR 0x27]"

definition dq :: string where
  "dq = [CHR 0x22]"

section \<open>simple-mcp-client: provider registry\<close>

text \<open>The loop of \<^verbatim>\<open>connect_to_server\<close> that writes a provider's tools into the name map.\<close>

definition register_tools ::
  "string \<Rightarrow> tool list \<Rightarrow> (string, string) mapping \<Rightarrow> (string, string) mapping" where
  "register_tools server_name ts m = foldl (\<lambda>m t. Mapping.update (tool_name t) server_name m) m ts"

text \<open>The line that the \<^verbatim>\<open>catch\<close> clause of \<^verbatim>\<open>connect_to_server\<close> prints.\<close>

definition connect_exception :: "string \<Rightarrow> string \<Rightarrow> string" where
  "connect_exception server_name what =
     ''Error: Exception while connecting to '' @ sq @ c_str server_name @ sq @ '': ''
       @ c_str what @ nl"

text \<open>
  \<^verbatim>\<open>connect_to_server\<close>. The result is the returned flag, the connection object as the
  call leaves it, and the global state. The \<^verbatim>\<open>catch\<close> clause of the function handles
  every exception of the sequence. \<open>g1\<close>, \<open>g2\<close> and \<open>g3\<close> are the states after the
  transport is built, after \<^verbatim>\<open>initialize\<close> is called and after \<^verbatim>\<open>get_tools\<close> is called.
\<close>

definition connect_to_server ::
  "connect_outcome \<Rightarrow> ServerConfig \<Rightarrow> MCPServerConnection \<Rightarrow> 'j globals
     \<Rightarrow> bool \<times> MCPServerConnection \<times> 'j globals" where
  "connect_to_server outcome server_config server0 g =
     (let server = server0\<lparr>conn_name := cfg_name server_config,
                           conn_type := cfg_type server_config,
                           client_host := cfg_host server_config,
                           client_port := cfg_port server_config\<rparr>;
          g1 = emit (SseOpen (cfg_host server_config) (cfg_port server_config)) g;
          g2 = emit (SseInitialize ''llama-mcp-client'' ''0.1.0'') (emit (SseSetTimeout 5) g1);
          g3 = emit SseGetTools g2
      in case outcome of
           OpenThrows what \<Rightarrow>
             (False, server, err (connect_exception (conn_name server) what) g1)
         | InitializeThrows what \<Rightarrow>
             (False, server, err (connect_exception (conn_name server) what) g2)
         | InitializeFalse \<Rightarrow>
             (False, server,
              err (''Error: Failed to initialize connection to '' @ sq
                   @ c_str (conn_name server) @ sq @ '' at '' @ c_str (cfg_host server_config)
                   @ '':'' @ show_int (cfg_port server_config) @ nl) g2)
         | GetToolsThrows what \<Rightarrow>
             (False, server, err (connect_exception (conn_name server) what) g3)
         | ToolList ts \<Rightarrow>
             (True, server\<lparr>tools := ts\<rparr>,
              out (''Successfully connected to '' @ sq @ c_str (conn_name server) @ sq
                   @ '' ('' @ show_nat (length ts) @ '' tools found)'' @ nl)
                (g3\<lparr>tool_to_server_map :=
                      register_tools (conn_name server) ts (tool_to_server_map g3)\<rparr>)))"

text \<open>A default-constructed \<^verbatim>\<open>MCPServerConnection\<close>, as \<^verbatim>\<open>main\<close> declares it.\<close>

definition empty_connection :: MCPServerConnection where
  "empty_connection =
     \<lparr>conn_name = [], conn_type = [], client_host = [], client_port = 0, tools = []\<rparr>"

text \<open>
  The connection loop of \<^verbatim>\<open>main\<close> over \<^verbatim>\<open>config.servers\<close>; \<open>i\<close> counts the attempts.
\<close>

fun connect_all :: "'j mcp_env \<Rightarrow> nat \<Rightarrow> ServerConfig list \<Rightarrow> 'j globals \<Rightarrow> 'j globals" where
  "connect_all env i [] g = g"
| "connect_all env i (server_config # rest) g =
     (case connect_to_server (handshake env i server_config) server_config empty_connection g of
        (ok, server, g') \<Rightarrow>
          connect_all env (Suc i) rest
            (if ok then g'\<lparr>connected_servers := connected_servers g' @ [server]\<rparr> else g'))"

text \<open>
  \<^verbatim>\<open>find_server_for_tool\<close>. The returned pointer into \<^verbatim>\<open>connected_servers\<close> is the index
  of the element; \<open>None\<close> is the null pointer.
\<close>

fun first_named :: "string \<Rightarrow> MCPServerConnection list \<Rightarrow> nat option" where
  "first_named n [] = None"
| "first_named n (server # rest) =
     (if conn_name server = n then Some 0 else map_option Suc (first_named n rest))"

definition find_server_for_tool :: "string \<Rightarrow> 'j globals \<Rightarrow> nat option" where
  "find_server_for_tool name g =
     (case Mapping.lookup (tool_to_server_map g) name of
        None \<Rightarrow> None
      | Some server_name \<Rightarrow> first_named server_name (connected_servers g))"

section \<open>simple-mcp-client: dispatcher and interactive session\<close>

definition execute_tool :: "'j mcp_env \<Rightarrow> string \<Rightarrow> 'j \<Rightarrow> 'j globals \<Rightarrow> 'j globals" where
  "execute_tool env name args g =
     (case find_server_for_tool name g of
        None \<Rightarrow>
          err (''Error: Tool '' @ sq @ c_str name @ sq @ '' not found on any connected server.''
               @ nl) g
      | Some k \<Rightarrow>
          (let g1 = out (''Executing tool '' @ sq @ c_str name @ sq @ '' on server '' @ sq
                         @ c_str (conn_name (connected_servers g ! k)) @ sq @ ''...'' @ nl) g;
               g2 = emit (SseCallTool k name args) g1
           in case call_tool env k name args of
                Inr result \<Rightarrow> out (nl @ ''Result:'' @ nl @ c_str (json_dump env result) @ nl) g2
              | Inl what \<Rightarrow>
                  err (''Error: Exception during tool execution: '' @ c_str what @ nl) g2))"

definition display_server_tools :: "MCPServerConnection \<Rightarrow> 'j globals \<Rightarrow> 'j globals" where
  "display_server_tools server g =
     (if tools server \<noteq> [] then
        foldl (\<lambda>g t. out (''  - '' @ c_str (tool_name t) @ '': '' @ c_str (tool_description t) @ nl) g)
          (out (nl @ ''From server '' @ sq @ c_str (conn_name server) @ sq @ '' (''
                @ c_str (conn_type server) @ ''):'' @ nl) g)
          (tools server)
      else g)"

definition display_tools :: "'j globals \<Rightarrow> 'j globals" where
  "display_tools g =
     (let g1 = out (nl @ ''--- Available Tools ---'' @ nl) g
      in if Mapping.is_empty (tool_to_server_map g1) then
           out (''No tools found on any connected servers.'' @ nl) g1
         else out nl (foldl (\<lambda>g server. display_server_tools server g) g1 (connected_servers g1)))"

definition display_servers :: "'j globals \<Rightarrow> 'j globals" where
  "display_servers g =
     foldl (\<lambda>g server.
              out (''- '' @ c_str (conn_name server) @ '' ('' @ c_str (conn_type server)
                   @ '') at '' @ c_str (client_host server) @ '':''
                   @ show_int (client_port server) @ nl) g)
       (out (nl @ ''--- Connected Servers ---'' @ nl) g) (connected_servers g)"

text \<open>The instructions that \<^verbatim>\<open>run_interactive_mode\<close> prints, one element for each \<^verbatim>\<open>printf\<close>.\<close>

definition instruction_lines :: "string list" where
  "instruction_lines =
     [nl @ ''--- MCP Client Interactive Mode ---'' @ nl,
      ''Commands:'' @ nl,
      ''  - tools                            List all available tools.'' @ nl,
      ''  - tool <name> <json_args>          Execute a tool (e.g., tool calculator '' @ sq
        @ ''{'' @ dq @ ''expression'' @ dq @ '':'' @ dq @ ''2+2'' @ dq @ ''}'' @ sq @ '').'' @ nl,
      ''  - servers                          List all connected servers.'' @ nl,
      ''  - help                             Show this help message.'' @ nl,
      ''  - exit                             Quit the client.'' @ nl]"

definition print_instructions :: "'j globals \<Rightarrow> 'j globals" where
  "print_instructions g = foldl (\<lambda>g s. out s g) g instruction_lines"

text \<open>
  The \<^verbatim>\<open>tool\<close> command: \<open>rest\<close> is what the string stream holds after the command word.
\<close>

definition tool_command :: "'j mcp_env \<Rightarrow> string \<Rightarrow> 'j globals \<Rightarrow> 'j globals" where
  "tool_command env rest g =
     (case extract_word rest of
        (name, rest') \<Rightarrow>
          if name = [] then
            err (''Error: Tool name is required. Usage: tool <name> <json_args>'' @ nl) g
          else
            (let args_str = dropWhile (\<lambda>c. c \<in> set [CHR '' '', CHR 0x09, CHR 0x0A, CHR 0x0D])
                              (takeWhile (\<lambda>c. c \<noteq> CHR 0x0A) rest')
             in if args_str = [] then execute_tool env name (json_object env) g
                else case json_parse env args_str of
                       Inl what \<Rightarrow> err (''Error: Invalid JSON arguments: '' @ c_str what @ nl) g
                     | Inr args \<Rightarrow> execute_tool env name args g))"

text \<open>
  The \<^verbatim>\<open>while (true)\<close> loop of \<^verbatim>\<open>run_interactive_mode\<close>. The loop need not end (it
  spins at the end of the input), so the model counts iterations down from \<open>fuel\<close> and
  \<open>None\<close> stands for a run that needs more. \<open>line\<close> is the local variable of the same
  name, which \<^verbatim>\<open>std::getline\<close> may leave unchanged. The \<^verbatim>\<open>help\<close> branch is the source's
  recursive call \<^verbatim>\<open>run_interactive_mode({true})\<close>, its argument read as a configuration
  with \<^verbatim>\<open>show_instructions\<close> set (the comment beside it says that the instructions are
  shown again): the instructions are printed and a new loop with a fresh \<open>line\<close> runs
  until it breaks, after which this loop goes on.
\<close>

fun interactive_loop :: "nat \<Rightarrow> 'j mcp_env \<Rightarrow> string \<Rightarrow> 'j globals \<Rightarrow> 'j globals option" where
  "interactive_loop 0 env line g = None"
| "interactive_loop (Suc fuel) env line g =
     (let g1 = out (nl @ ''mcp> '') g
      in case getline (cin g1) line of
           (cin', line') \<Rightarrow>
             (let g2 = g1\<lparr>cin := cin'\<rparr>
              in if line' = [] then interactive_loop fuel env line' g2
                 else case extract_word line' of
                   (command, rest) \<Rightarrow>
                     if command = ''exit'' \<or> command = ''quit'' then Some g2
                     else if command = ''tools'' then
                       interactive_loop fuel env line' (display_tools g2)
                     else if command = ''servers'' then
                       interactive_loop fuel env line' (display_servers g2)
                     else if command = ''tool'' then
                       interactive_loop fuel env line' (tool_command env rest g2)
                     else if command = ''help'' then
                       (case interactive_loop fuel env [] (print_instructions g2) of
                          None \<Rightarrow> None
                        | Some g3 \<Rightarrow> interactive_loop fuel env line' g3)
                     else
                       interactive_loop fuel env line'
                         (err (''Unknown command: '' @ sq @ c_str command @ sq @ ''. Type '' @ sq
                               @ ''help'' @ sq @ '' for a list of commands.'' @ nl) g2)))"

declare interactive_loop.simps [simp del]

definition run_interactive_mode :: "nat \<Rightarrow> 'j mcp_env \<Rightarrow> Config \<Rightarrow> 'j globals \<Rightarrow> 'j globals option" where
  "run_interactive_mode fuel env config g =
     interactive_loop fuel env [] (if show_instructions config then print_instructions g else g)"

section \<open>simple-mcp-client: main\<close>

text \<open>
  How the process ends: \<^verbatim>\<open>main\<close> returns an exit code, or an exception nobody catches
  ends it through \<^verbatim>\<open>std::terminate\<close>.
\<close>

datatype exit_status = Returned int | Uncaught stoi_error

definition initial_globals :: "istream \<Rightarrow> 'j globals" where
  "initial_globals stdin =
     \<lparr>connected_servers = [], tool_to_server_map = Mapping.empty, cin = stdin, trace = []\<rparr>"

definition fatal_message :: string where
  "fatal_message =
     nl @ ''Fatal: No servers could be connected. Please check your server configurations.'' @ nl"

text \<open>The state when the connection loop of \<^verbatim>\<open>main\<close> is over.\<close>

definition startup :: "'j mcp_env \<Rightarrow> Config \<Rightarrow> 'j globals \<Rightarrow> 'j globals" where
  "startup env config g = connect_all env 0 (servers config) (out (''Starting MCP client...'' @ nl) g)"

definition main :: "nat \<Rightarrow> 'j mcp_env \<Rightarrow> string list \<Rightarrow> istream \<Rightarrow> (exit_status \<times> 'j globals) option" where
  "main fuel env argv stdin =
     (case parse_config argv of
        Inl e \<Rightarrow> Some (Uncaught e, initial_globals stdin)
      | Inr config \<Rightarrow>
          (let g = startup env config (initial_globals stdin)
           in if connected_servers g = [] then
                Some (Returned 1, err fatal_message g)
              else case run_interactive_mode fuel env config g of
                     None \<Rightarrow> None
                   | Some g' \<Rightarrow> Some (Returned 0, out (''Exiting MCP client.'' @ nl) g')))"

section \<open>simple-function-call: generation loop\<close>

text \<open>
  \<^verbatim>\<open>int\<close> is 32 bits wide. The model computes in the integers and reduces every sum that
  the source forms in \<^verbatim>\<open>int\<close> to the two's-complement range (an overflow, which the
  language leaves undefined, wraps around).
\<close>

definition wrap32 :: "int \<Rightarrow> int" where
  "wrap32 x = (x + 2 ^ 31) mod 2 ^ 32 - 2 ^ 31"

lemma wrap32_range: "- (2 ^ 31) \<le> wrap32 x \<and> wrap32 x < 2 ^ 31"
  by (simp add: wrap32_def)

lemma wrap32_id: "- (2 ^ 31) \<le> x \<Longrightarrow> x < 2 ^ 31 \<Longrightarrow> wrap32 x = x"
  by (simp add: wrap32_def)

lemma wrap32_succ: "wrap32 x < wrap32 l \<Longrightarrow> wrap32 (wrap32 x + 1) = wrap32 x + 1"
  using wrap32_range [of x] wrap32_range [of l] by (intro wrap32_id) linarith+

type_synonym llama_token = int

text \<open>
  The inference engine, which is not part of the repository. \<open>llama_decode\<close> tells
  whether decoding the batch after the given context returns non-zero; the sampler picks
  the next token from the tokens decoded so far; \<open>llama_token_to_piece\<close> is \<open>None\<close>
  when the conversion returns a negative length.
\<close>

record llama =
  llama_decode :: "llama_token list \<Rightarrow> llama_token list \<Rightarrow> bool"
  llama_sampler_sample :: "llama_token list \<Rightarrow> llama_token"
  llama_vocab_is_eog :: "llama_token \<Rightarrow> bool"
  llama_token_to_piece :: "llama_token \<Rightarrow> string option"

text \<open>What the function-call example does to the outside world, in order.\<close>

datatype fc_event =
    FcStdout string
  | FcStderr string
  | LlamaDecode "llama_token list"
  | LlamaSample
  | Popen string

text \<open>
  The variables of the main generation loop: \<^verbatim>\<open>n_pos\<close>, the tokens of \<^verbatim>\<open>batch\<close>,
  \<^verbatim>\<open>n_decode\<close>, \<^verbatim>\<open>response_text\<close>; the tokens the engine has decoded; the effects.
\<close>

record gen_state =
  n_pos :: int
  batch :: "llama_token list"
  n_decode :: int
  response_text :: string
  decoded :: "llama_token list"
  gen_trace :: "fc_event list"

datatype gen_error = failed_to_eval | failed_to_convert_token

definition gen_emit :: "fc_event \<Rightarrow> gen_state \<Rightarrow> gen_state" where
  "gen_emit e st = st\<lparr>gen_trace := gen_trace st @ [e]\<rparr>"

text \<open>
  The \<^verbatim>\<open>for\<close> loop. \<open>Inl\<close> is one of the two \<^verbatim>\<open>return 1\<close> inside the loop, with the
  state at that point; \<open>Inr\<close> is the state when the loop is left by its condition or by
  the \<^verbatim>\<open>break\<close> at an end-of-generation token.
\<close>

function generation_loop ::
  "llama \<Rightarrow> int \<Rightarrow> int \<Rightarrow> gen_state \<Rightarrow> gen_error \<times> gen_state + gen_state" where
  "generation_loop eng n_prompt n_predict st =
     (if wrap32 (n_pos st + int (length (batch st))) < wrap32 (n_prompt + n_predict) then
        (let st1 = gen_emit (LlamaDecode (batch st)) st
         in if llama_decode eng (decoded st1) (batch st1) then
              Inl (failed_to_eval, gen_emit (FcStderr ''main : failed to eval, return code 1\<newline>'') st1)
            else
              (let st2 = st1\<lparr>n_pos := wrap32 (n_pos st1 + int (length (batch st1))),
                            decoded := decoded st1 @ batch st1\<rparr>;
                   new_token_id = llama_sampler_sample eng (decoded st2);
                   st3 = gen_emit LlamaSample st2
               in if llama_vocab_is_eog eng new_token_id then Inr st3
                  else case llama_token_to_piece eng new_token_id of
                         None \<Rightarrow>
                           Inl (failed_to_convert_token,
                                gen_emit (FcStderr ''main: error: failed to convert token to piece\<newline>'') st3)
                       | Some s \<Rightarrow>
                           generation_loop eng n_prompt n_predict
                             ((gen_emit (FcStdout (c_str s)) st3)
                                \<lparr>response_text := response_text st3 @ s,
                                 batch := [new_token_id],
                                 n_decode := wrap32 (n_decode st3 + 1)\<rparr>)))
      else Inr st)"
  by pat_completeness auto

termination generation_loop
  apply (relation "measure (\<lambda>(eng, n_prompt, n_predict, st).
           nat (wrap32 (n_prompt + n_predict) - wrap32 (n_pos st + int (length (batch st)))))")
   apply simp
  apply (simp add: gen_emit_def wrap32_succ)
  done

declare generation_loop.simps [simp del]

text \<open>
  The loop as \<^verbatim>\<open>main\<close> enters it: \<^verbatim>\<open>n_prompt\<close> is the number of prompt tokens, the
  first batch holds all of them, and nothing has been generated.
\<close>

definition main_generation_loop ::
  "llama \<Rightarrow> llama_token list \<Rightarrow> int \<Rightarrow> gen_error \<times> gen_state + gen_state" where
  "main_generation_loop eng prompt_tokens n_predict =
     generation_loop eng (int (length prompt_tokens)) n_predict
       \<lparr>n_pos = 0, batch = prompt_tokens, n_decode = 0, response_text = [], decoded = [],
        gen_trace = []\<rparr>"

section \<open>simple-function-call: local action executor\<close>

text \<open>\<^verbatim>\<open>common_chat_tool_call\<close> and the parsed message, as far as \<^verbatim>\<open>main\<close> reads them.\<close>

record common_chat_tool_call =
  tc_name :: string
  tc_arguments :: string

record common_chat_msg =
  content :: string
  tool_calls :: "common_chat_tool_call list"

text \<open>
  The collaborators of the execution stage: \<^verbatim>\<open>json::parse\<close> (\<open>Inl\<close> is the
  exception's \<^verbatim>\<open>what()\<close>), the conversion of \<^verbatim>\<open>args["command"]\<close> to a string (which
  throws when there is no string there), and \<^verbatim>\<open>popen\<close> with the characters that the
  pipe delivers (\<open>None\<close> when no pipe is returned).
\<close>

record 'j fc_env =
  fc_json_parse :: "string \<Rightarrow> string + 'j"
  fc_json_command :: "'j \<Rightarrow> string + string"
  popen :: "string \<Rightarrow> string option"

record fc_io =
  fc_cin :: istream
  fc_trace :: "fc_event list"

definition fc_emit :: "fc_event \<Rightarrow> fc_io \<Rightarrow> fc_io" where
  "fc_emit e io = io\<lparr>fc_trace := fc_trace io @ [e]\<rparr>"

definition printf :: "string \<Rightarrow> fc_io \<Rightarrow> fc_io" where
  "printf s io = fc_emit (FcStdout s) io"

text \<open>
  \<^verbatim>\<open>fgets(buffer, n, pipe)\<close> on a pipe that still holds \<open>s\<close>: at most \<open>n - 1\<close> characters,
  ending after the first newline among them.
\<close>

definition fgets :: "nat \<Rightarrow> string \<Rightarrow> string" where
  "fgets n s =
     (let t = take (n - 1) s; l = takeWhile (\<lambda>c. c \<noteq> CHR 0x0A) t
      in if length l < length t then l @ [CHR 0x0A] else t)"

lemma fgets_length: "s \<noteq> [] \<Longrightarrow> 1 < n \<Longrightarrow> 0 < length (fgets n s)"
  by (cases s) (auto simp: fgets_def Let_def take_Suc_conv_app_nth)

text \<open>
  The reading loop of \<^verbatim>\<open>execute_shell_command\<close> over what the pipe delivers: chunk by
  chunk into a buffer of 128 characters, each chunk appended to the result as a C string
  (up to its first NUL).
\<close>

function read_pipe :: "string \<Rightarrow> string" where
  "read_pipe s =
     (if s = [] then []
      else c_str (fgets 128 s) @ read_pipe (drop (length (fgets 128 s)) s))"
  by pat_completeness auto
termination
proof (relation "measure length")
  show "wf (measure length)" by simp
next
  fix s :: string
  assume "s \<noteq> []"
  then have "0 < length (fgets 128 s)" by (rule fgets_length) simp
  moreover have "0 < length s" using \<open>s \<noteq> []\<close> by simp
  ultimately show "(drop (length (fgets 128 s)) s, s) \<in> measure length" by simp
qed

declare read_pipe.simps [simp del]

definition execute_shell_command :: "'j fc_env \<Rightarrow> string \<Rightarrow> fc_io \<Rightarrow> string \<times> fc_io" where
  "execute_shell_command env command io =
     (let io1 = fc_emit (Popen (c_str command)) io
      in case popen env (c_str command) of
           None \<Rightarrow> (''Error: Failed to execute command'', io1)
         | Some output \<Rightarrow> (read_pipe output, io1))"

text \<open>
  The body of the loop over \<^verbatim>\<open>parsed_response.tool_calls\<close>, for one tool call.
\<close>

definition run_command :: "'j fc_env \<Rightarrow> string \<Rightarrow> fc_io \<Rightarrow> fc_io" where
  "run_command env command io =
     (case execute_shell_command env command io of
        (result, io') \<Rightarrow> printf (''  Result:'' @ nl @ c_str result) io')"

definition handle_tool_call :: "'j fc_env \<Rightarrow> bool \<Rightarrow> common_chat_tool_call \<Rightarrow> fc_io \<Rightarrow> fc_io" where
  "handle_tool_call env confirm_commands tool_call io =
     (let io1 = printf (''  Function: '' @ c_str (tc_name tool_call) @ nl) io;
          io2 = printf (''  Arguments: '' @ c_str (tc_arguments tool_call) @ nl) io1
      in if tc_name tool_call = ''shell_command'' then
           (case fc_json_parse env (tc_arguments tool_call) of
              Inl what \<Rightarrow> printf (''  Error parsing arguments: '' @ c_str what @ nl) io2
            | Inr args \<Rightarrow>
                (case fc_json_command env args of
                   Inl what \<Rightarrow> printf (''  Error parsing arguments: '' @ c_str what @ nl) io2
                 | Inr command \<Rightarrow>
                     (let io3 = printf (''  Command: '' @ c_str command @ nl) io2
                      in if confirm_commands then
                           (let io4 = printf ''  Execute this command? (y/N): '' io3
                            in case getline (fc_cin io4) [] of
                                 (cin', response) \<Rightarrow>
                                   (let io5 = io4\<lparr>fc_cin := cin'\<rparr>
                                    in if response \<noteq> ''y'' \<and> response \<noteq> ''Y'' then
                                         printf (''  Command execution cancelled.'' @ nl) io5
                                       else run_command env command io5))
                         else run_command env command io3)))
         else io2)"

fun execute_tool_calls ::
  "'j fc_env \<Rightarrow> bool \<Rightarrow> common_chat_tool_call list \<Rightarrow> fc_io \<Rightarrow> fc_io" where
  "execute_tool_calls env confirm_commands [] io = io"
| "execute_tool_calls env confirm_commands (tool_call # rest) io =
     execute_tool_calls env confirm_commands rest (handle_tool_call env confirm_commands tool_call io)"

text \<open>The function call execution section of \<^verbatim>\<open>main\<close>.\<close>

definition function_call_execution :: "'j fc_env \<Rightarrow> bool \<Rightarrow> common_chat_msg \<Rightarrow> fc_io \<Rightarrow> fc_io" where
  "function_call_execution env confirm_commands parsed_response io =
     (if tool_calls parsed_response \<noteq> [] then
        execute_tool_calls env confirm_commands (tool_calls parsed_response)
          (printf (''Function calls detected:'' @ nl) io)
      else if content parsed_response \<noteq> [] then
        printf (''Response: '' @ c_str (content parsed_response) @ nl) io
      else io)"

section \<open>Notions used in the statements\<close>

text \<open>A connection attempt fails unless the provider's tool list arrives.\<close>

definition is_failure :: "connect_outcome \<Rightarrow> bool" where
  "is_failure outcome = (case outcome of ToolList ts \<Rightarrow> False | _ \<Rightarrow> True)"

text \<open>
  Projections of a trace: the transports opened (host and port), the lines on standard
  output, the lines on standard error, and the tool calls sent to providers.
\<close>

definition opens :: "'j event list \<Rightarrow> (string \<times> int) list" where
  "opens tr = concat (map (\<lambda>e. case e of SseOpen h p \<Rightarrow> [(h, p)] | _ \<Rightarrow> []) tr)"

definition stdout_of :: "'j event list \<Rightarrow> string list" where
  "stdout_of tr = concat (map (\<lambda>e. case e of Stdout s \<Rightarrow> [s] | _ \<Rightarrow> []) tr)"

definition stderr_of :: "'j event list \<Rightarrow> string list" where
  "stderr_of tr = concat (map (\<lambda>e. case e of Stderr s \<Rightarrow> [s] | _ \<Rightarrow> []) tr)"

definition tool_calls_of :: "'j event list \<Rightarrow> (nat \<times> string \<times> 'j) list" where
  "tool_calls_of tr = concat (map (\<lambda>e. case e of SseCallTool k n a \<Rightarrow> [(k, n, a)] | _ \<Rightarrow> []) tr)"

definition offers :: "MCPServerConnection \<Rightarrow> string \<Rightarrow> bool" where
  "offers s name = (name \<in> tool_name ` set (tools s))"

text \<open>The name map that registering the held providers in order produces.\<close>

definition registry_of :: "MCPServerConnection list \<Rightarrow> (string, string) mapping" where
  "registry_of cs = foldl (\<lambda>m s. register_tools (conn_name s) (tools s) m) Mapping.empty cs"

definition registry_built :: "'j globals \<Rightarrow> bool" where
  "registry_built g = (tool_to_server_map g = registry_of (connected_servers g))"

text \<open>The two global collections together.\<close>

definition registry :: "'j globals \<Rightarrow> MCPServerConnection list \<times> (string, string) mapping" where
  "registry g = (connected_servers g, tool_to_server_map g)"

text \<open>
  The held providers that a key of the name map corresponds to: the positions in
  \<open>connected_servers\<close> of the providers that carry the name stored for the key. The
  invariant of the registry asks for exactly one such provider for every key.
\<close>

definition holders :: "string \<Rightarrow> 'j globals \<Rightarrow> nat list" where
  "holders name g =
     (case Mapping.lookup (tool_to_server_map g) name of
        None \<Rightarrow> []
      | Some server_name \<Rightarrow>
          filter (\<lambda>k. conn_name (connected_servers g ! k) = server_name)
            [0..<length (connected_servers g)])"

section \<open>Scenarios\<close>

text \<open>
  Concrete inputs at which the theorems below are instantiated: an input stream of
  complete lines, the two providers of the specification's scenario (A offers
  \<open>search\<close>, B offers \<open>search\<close> and \<open>fetch\<close>; nothing answers at the default
  address), and the command line that configures them.
\<close>

definition stdin_lines :: "string list \<Rightarrow> istream" where
  "stdin_lines ls = \<lparr>pending = ls, partial = [], good = True\<rparr>"

definition search_tool :: tool where
  "search_tool = \<lparr>tool_name = ''search'', tool_description = ''Search the web''\<rparr>"

definition fetch_tool :: tool where
  "fetch_tool = \<lparr>tool_name = ''fetch'', tool_description = ''Fetch a page''\<rparr>"

definition scenario_env :: "string mcp_env" where
  "scenario_env =
     \<lparr>handshake = (\<lambda>i sc. if cfg_name sc = ''A'' then ToolList [search_tool]
                          else if cfg_name sc = ''B'' then ToolList [search_tool, fetch_tool]
                          else OpenThrows ''Connection refused''),
      call_tool = (\<lambda>k name args. Inr args),
      json_parse = Inr, json_object = ''{}'', json_dump = (\<lambda>j. j)\<rparr>"

definition scenario_argv :: "string list" where
  "scenario_argv =
     [''simple-mcp-client'', ''--hide-instructions'',
      ''--add-server'', ''A'', ''hostA'', ''9001'', ''service'',
      ''--add-server'', ''B'', ''hostB'', ''9002'', ''service'']"

definition scenario_config :: Config where
  "scenario_config =
     \<lparr>servers =
        [default_server,
         \<lparr>cfg_name = ''A'', cfg_host = ''hostA'', cfg_port = 9001, cfg_type = ''service''\<rparr>,
         \<lparr>cfg_name = ''B'', cfg_host = ''hostB'', cfg_port = 9002, cfg_type = ''service''\<rparr>],
      show_instructions = False\<rparr>"

definition provider_A :: MCPServerConnection where
  "provider_A =
     \<lparr>conn_name = ''A'', conn_type = ''service'', client_host = ''hostA'', client_port = 9001,
      tools = [search_tool]\<rparr>"

definition provider_B :: MCPServerConnection where
  "provider_B =
     \<lparr>conn_name = ''B'', conn_type = ''service'', client_host = ''hostB'', client_port = 9002,
      tools = [search_tool, fetch_tool]\<rparr>"

text \<open>
  Two providers that carry the same name: the default entry, and a second server that the
  command line also calls \<open>default-agent\<close>. Both connect; the first offers \<open>search\<close>,
  the second \<open>search\<close> and \<open>fetch\<close>.
\<close>

definition twin_env :: "string mcp_env" where
  "twin_env =
     \<lparr>handshake = (\<lambda>i sc. if i = 0 then ToolList [search_tool]
                          else ToolList [search_tool, fetch_tool]),
      call_tool = (\<lambda>k name args. Inr args),
      json_parse = Inr, json_object = ''{}'', json_dump = (\<lambda>j. j)\<rparr>"

definition twin_argv :: "string list" where
  "twin_argv =
     [''simple-mcp-client'', ''--add-server'', ''default-agent'', ''otherhost'', ''9002'',
      ''service'']"

definition twin_config :: Config where
  "twin_config =
     \<lparr>servers =
        [default_server,
         \<lparr>cfg_name = ''default-agent'', cfg_host = ''otherhost'', cfg_port = 9002,
          cfg_type = ''service''\<rparr>],
      show_instructions = True\<rparr>"

definition twin_first :: MCPServerConnection where
  "twin_first =
     \<lparr>conn_name = ''default-agent'', conn_type = ''llama-agent'', client_host = ''localhost'',
      client_port = 8889, tools = [search_tool]\<rparr>"

definition twin_second :: MCPServerConnection where
  "twin_second =
     \<lparr>conn_name = ''default-agent'', conn_type = ''service'', client_host = ''otherhost'',
      client_port = 9002, tools = [search_tool, fetch_tool]\<rparr>"

definition scenario_initial :: "string globals" where
  "scenario_initial = initial_globals (stdin_lines [])"

text \<open>
  For the function-call example: a JSON library that understands the one payload used
  here, a shell that answers \<open>hi\<close>, two tool calls, and an operator whose answers are
  the lines of standard input.
\<close>

definition echo_payload :: string where
  "echo_payload = ''{'' @ dq @ ''command'' @ dq @ '':'' @ dq @ ''echo hi'' @ dq @ ''}''"

definition shell_env :: "string fc_env" where
  "shell_env =
     \<lparr>fc_json_parse = (\<lambda>s. if s = echo_payload then Inr s else Inl ''parse error''),
      fc_json_command = (\<lambda>j. Inr ''echo hi''),
      popen = (\<lambda>c. Some (''hi'' @ nl))\<rparr>"

definition shell_call :: common_chat_tool_call where
  "shell_call = \<lparr>tc_name = ''shell_command'', tc_arguments = echo_payload\<rparr>"

definition weather_call :: common_chat_tool_call where
  "weather_call = \<lparr>tc_name = ''get_weather'', tc_arguments = ''{}''\<rparr>"

definition operator_says :: "string list \<Rightarrow> fc_io" where
  "operator_says answers =
     \<lparr>fc_cin = \<lparr>pending = answers, partial = [], good = True\<rparr>, fc_trace = []\<rparr>"

definition idle_engine :: llama where
  "idle_engine =
     \<lparr>llama_decode = (\<lambda>c b. False), llama_sampler_sample = (\<lambda>c. 7),
      llama_vocab_is_eog = (\<lambda>t. False), llama_token_to_piece = (\<lambda>t. Some ''a'')\<rparr>"

text \<open>
  The scenario's client reads \<open>help\<close>, \<open>exit\<close>, \<open>servers\<close>, \<open>exit\<close>. The state in which
  \<^verbatim>\<open>main\<close> returns: all four lines are consumed, because the first \<open>exit\<close> only ends
  the loop that \<open>help\<close> started.
\<close>

definition session_input :: istream where
  "session_input = stdin_lines [''help'', ''exit'', ''servers'', ''exit'']"

definition session_end :: "string globals" where
  "session_end =
     (let g = startup scenario_env scenario_config (initial_globals session_input);
          prompt = Stdout (nl @ ''mcp> '');
          g3 = g\<lparr>trace := trace g @ [prompt] @ map Stdout instruction_lines @ [prompt],
                 cin := (cin g)\<lparr>pending := [''servers'', ''exit'']\<rparr>\<rparr>;
          g4 = g3\<lparr>trace := trace g3 @ [prompt], cin := (cin g3)\<lparr>pending := [''exit'']\<rparr>\<rparr>;
          g5 = display_servers g4;
          g6 = g5\<lparr>trace := trace g5 @ [prompt], cin := (cin g5)\<lparr>pending := []\<rparr>\<rparr>
      in out (''Exiting MCP client.'' @ nl) g6)"

section \<open>Properties of the provider registry\<close>

lemma opens_append [simp]: "opens (a @ b) = opens a @ opens b"
  by (simp add: opens_def)

lemma stdout_of_append [simp]: "stdout_of (a @ b) = stdout_of a @ stdout_of b"
  by (simp add: stdout_of_def)

lemma stderr_of_append [simp]: "stderr_of (a @ b) = stderr_of a @ stderr_of b"
  by (simp add: stderr_of_def)

lemma tool_calls_of_append [simp]: "tool_calls_of (a @ b) = tool_calls_of a @ tool_calls_of b"
  by (simp add: tool_calls_of_def)

lemma connect_to_server_failure:
  assumes "is_failure outcome"
  shows "\<exists>server msg g'.
           connect_to_server outcome sc s0 g = (False, server, g')
           \<and> connected_servers g' = connected_servers g
           \<and> tool_to_server_map g' = tool_to_server_map g
           \<and> cin g' = cin g
           \<and> take (length (trace g)) (trace g') = trace g
           \<and> last (trace g') = Stderr msg
           \<and> stderr_of (trace g') = stderr_of (trace g) @ [msg]
           \<and> stdout_of (trace g') = stdout_of (trace g)
           \<and> opens (trace g') = opens (trace g) @ [(cfg_host sc, cfg_port sc)]"
  using assms
  by (cases outcome)
     (simp_all add: is_failure_def connect_to_server_def Let_def emit_def err_def opens_def
        stdout_of_def stderr_of_def)

lemma connect_to_server_success:
  "connect_to_server (ToolList ts) sc s0 g =
     (True,
      s0\<lparr>conn_name := cfg_name sc, conn_type := cfg_type sc, client_host := cfg_host sc,
         client_port := cfg_port sc, tools := ts\<rparr>,
      g\<lparr>tool_to_server_map := register_tools (cfg_name sc) ts (tool_to_server_map g),
        trace := trace g @
          [SseOpen (cfg_host sc) (cfg_port sc), SseSetTimeout 5,
           SseInitialize ''llama-mcp-client'' ''0.1.0'', SseGetTools,
           Stdout (''Successfully connected to '' @ sq @ c_str (cfg_name sc) @ sq
                   @ '' ('' @ show_nat (length ts) @ '' tools found)'' @ nl)]\<rparr>)"
  by (simp add: connect_to_server_def Let_def emit_def out_def)

lemma not_failure: "\<not> is_failure outcome \<Longrightarrow> \<exists>ts. outcome = ToolList ts"
  by (cases outcome) (simp_all add: is_failure_def)

lemma connect_to_server_opens:
  "opens (trace (snd (snd (connect_to_server outcome sc s0 g)))) =
     opens (trace g) @ [(cfg_host sc, cfg_port sc)]"
  by (cases outcome)
     (simp_all add: connect_to_server_def Let_def emit_def err_def out_def opens_def)

lemma connect_all_opens:
  "opens (trace (connect_all env i scs g)) =
     opens (trace g) @ map (\<lambda>sc. (cfg_host sc, cfg_port sc)) scs"
proof (induction scs arbitrary: i g)
  case Nil
  show ?case by simp
next
  case (Cons sc scs)
  obtain ok server g' where c:
    "connect_to_server (handshake env i sc) sc empty_connection g = (ok, server, g')"
    by (cases "connect_to_server (handshake env i sc) sc empty_connection g") auto
  have o: "opens (trace g') = opens (trace g) @ [(cfg_host sc, cfg_port sc)]"
    using connect_to_server_opens [of "handshake env i sc" sc empty_connection g] c by simp
  show ?case
    by (simp add: c Cons.IH o)
qed

lemma register_tools_lookup:
  "Mapping.lookup (register_tools n ts m) k =
     (if k \<in> tool_name ` set ts then Some n else Mapping.lookup m k)"
  unfolding register_tools_def
  by (induction ts arbitrary: m) (auto simp: Mapping.lookup_update')

lemma registry_of_snoc:
  "registry_of (cs @ [s]) = register_tools (conn_name s) (tools s) (registry_of cs)"
  by (simp add: registry_of_def)

lemma registry_of_last_offer:
  "offers b name \<Longrightarrow> \<forall>s \<in> set post. \<not> offers s name \<Longrightarrow>
   Mapping.lookup (registry_of (pre @ b # post)) name = Some (conn_name b)"
proof (induction post rule: rev_induct)
  case Nil
  then show ?case
    by (simp add: registry_of_snoc register_tools_lookup offers_def)
next
  case (snoc s post)
  have "registry_of (pre @ b # post @ [s]) = registry_of ((pre @ b # post) @ [s])" by simp
  also have "\<dots> = register_tools (conn_name s) (tools s) (registry_of (pre @ b # post))"
    by (rule registry_of_snoc)
  finally show ?case using snoc by (simp add: register_tools_lookup offers_def)
qed

lemma registry_of_none:
  "\<forall>s \<in> set cs. \<not> offers s name \<Longrightarrow> Mapping.lookup (registry_of cs) name = None"
proof (induction cs rule: rev_induct)
  case Nil
  show ?case by (simp add: registry_of_def)
next
  case (snoc s cs)
  then show ?case by (simp add: registry_of_snoc register_tools_lookup offers_def)
qed

lemma registry_of_some:
  "Mapping.lookup (registry_of cs) name = Some n \<Longrightarrow>
   \<exists>s \<in> set cs. conn_name s = n \<and> offers s name"
proof (induction cs rule: rev_induct)
  case Nil
  then show ?case by (simp add: registry_of_def)
next
  case (snoc s cs)
  then show ?case
    by (auto simp: registry_of_snoc register_tools_lookup offers_def split: if_splits)
qed

lemma first_named_first:
  "conn_name b = n \<Longrightarrow> \<forall>s \<in> set pre. conn_name s \<noteq> n \<Longrightarrow>
   first_named n (pre @ b # post) = Some (length pre)"
  by (induction pre) auto

lemma first_named_some:
  "first_named n cs = Some k \<Longrightarrow>
   k < length cs \<and> conn_name (cs ! k) = n \<and> (\<forall>j < k. conn_name (cs ! j) \<noteq> n)"
proof (induction cs arbitrary: k)
  case Nil
  then show ?case by simp
next
  case (Cons s cs)
  show ?case
  proof (cases "conn_name s = n")
    case True
    with Cons.prems show ?thesis by simp
  next
    case False
    with Cons.prems obtain k' where k': "first_named n cs = Some k'" "k = Suc k'" by auto
    from Cons.IH [OF k'(1)] False k'(2) show ?thesis
      by (auto simp: less_Suc_eq_0_disj)
  qed
qed

lemma first_named_exists:
  "n \<in> conn_name ` set cs \<Longrightarrow> \<exists>k. first_named n cs = Some k"
  by (induction cs) auto

lemma connect_all_registry_built:
  "registry_built g \<Longrightarrow> registry_built (connect_all env i scs g)"
proof (induction scs arbitrary: i g)
  case Nil
  then show ?case by simp
next
  case (Cons sc scs)
  show ?case
  proof (cases "is_failure (handshake env i sc)")
    case True
    from connect_to_server_failure [OF True, of sc empty_connection g]
    obtain server g' where c:
      "connect_to_server (handshake env i sc) sc empty_connection g = (False, server, g')"
      "connected_servers g' = connected_servers g"
      "tool_to_server_map g' = tool_to_server_map g"
      by blast
    with Cons.prems have "registry_built g'" by (simp add: registry_built_def)
    from Cons.IH [OF this] c(1) show ?thesis by simp
  next
    case False
    then obtain ts where ts: "handshake env i sc = ToolList ts"
      using not_failure by blast
    show ?thesis
      using Cons.prems
      by (simp add: ts connect_to_server_success)
         (rule Cons.IH, simp add: registry_built_def registry_of_snoc empty_connection_def)
  qed
qed

lemma connect_all_all_fail:
  "\<forall>k < length scs. is_failure (handshake env (i + k) (scs ! k)) \<Longrightarrow>
   connected_servers (connect_all env i scs g) = connected_servers g
   \<and> tool_to_server_map (connect_all env i scs g) = tool_to_server_map g
   \<and> cin (connect_all env i scs g) = cin g
   \<and> stdout_of (trace (connect_all env i scs g)) = stdout_of (trace g)"
proof (induction scs arbitrary: i g)
  case Nil
  show ?case by simp
next
  case (Cons sc scs)
  from Cons.prems have f: "is_failure (handshake env i sc)" by force
  have rest: "\<forall>k < length scs. is_failure (handshake env (Suc i + k) (scs ! k))"
  proof (intro allI impI)
    fix k assume "k < length scs"
    then have "is_failure (handshake env (i + Suc k) ((sc # scs) ! Suc k))"
      using Cons.prems by (metis Suc_less_eq length_Cons)
    then show "is_failure (handshake env (Suc i + k) (scs ! k))" by simp
  qed
  from connect_to_server_failure [OF f, of sc empty_connection g]
  obtain server g' where c:
    "connect_to_server (handshake env i sc) sc empty_connection g = (False, server, g')"
    "connected_servers g' = connected_servers g"
    "tool_to_server_map g' = tool_to_server_map g"
    "cin g' = cin g"
    "stdout_of (trace g') = stdout_of (trace g)"
    by blast
  from Cons.IH [OF rest, of g'] c show ?case by simp
qed

lemma registry_built_startup: "registry_built (startup env config (initial_globals stdin))"
  unfolding startup_def
  by (rule connect_all_registry_built)
     (simp add: registry_built_def initial_globals_def registry_of_def out_def emit_def)

lemma connect_to_server_tool_calls:
  "tool_calls_of (trace (snd (snd (connect_to_server outcome sc s0 g)))) = tool_calls_of (trace g)"
  by (cases outcome)
     (simp_all add: connect_to_server_def Let_def emit_def err_def out_def tool_calls_of_def)

lemma connect_all_tool_calls:
  "tool_calls_of (trace (connect_all env i scs g)) = tool_calls_of (trace g)"
proof (induction scs arbitrary: i g)
  case Nil
  show ?case by simp
next
  case (Cons sc scs)
  obtain ok server g' where c:
    "connect_to_server (handshake env i sc) sc empty_connection g = (ok, server, g')"
    by (cases "connect_to_server (handshake env i sc) sc empty_connection g") auto
  have o: "tool_calls_of (trace g') = tool_calls_of (trace g)"
    using connect_to_server_tool_calls [of "handshake env i sc" sc empty_connection g] c by simp
  show ?case
    by (simp add: c Cons.IH o)
qed

lemma startup_tool_calls:
  "tool_calls_of (trace (startup env config (initial_globals stdin))) = []"
  by (simp add: startup_def connect_all_tool_calls)
     (simp add: out_def emit_def initial_globals_def tool_calls_of_def)

lemma execute_tool_sends_call:
  "find_server_for_tool name g = Some k \<Longrightarrow>
   tool_calls_of (trace (execute_tool env name args g)) = tool_calls_of (trace g) @ [(k, name, args)]"
  by (simp add: execute_tool_def Let_def out_def emit_def err_def tool_calls_of_def
        split: sum.split)

section \<open>Properties of the interactive session\<close>

text \<open>No command of the session writes to the two global collections.\<close>

lemma registry_emit [simp]: "registry (emit e g) = registry g"
  by (simp add: registry_def emit_def)

lemma registry_out [simp]: "registry (out s g) = registry g"
  by (simp add: out_def)

lemma registry_err [simp]: "registry (err s g) = registry g"
  by (simp add: err_def)

lemma registry_cin [simp]: "registry (g\<lparr>cin := c\<rparr>) = registry g"
  by (simp add: registry_def)

lemma registry_foldl:
  "(\<And>h x. registry (f h x) = registry h) \<Longrightarrow> registry (foldl f g xs) = registry g"
  by (induction xs arbitrary: g) simp_all

lemma registry_print_instructions [simp]: "registry (print_instructions g) = registry g"
  unfolding print_instructions_def by (rule registry_foldl) simp

lemma registry_display_servers [simp]: "registry (display_servers g) = registry g"
  unfolding display_servers_def by (simp add: registry_foldl)

lemma registry_display_server_tools [simp]: "registry (display_server_tools s g) = registry g"
  unfolding display_server_tools_def by (simp add: registry_foldl)

lemma registry_display_tools [simp]: "registry (display_tools g) = registry g"
  unfolding display_tools_def Let_def by (simp add: registry_foldl)

lemma registry_execute_tool [simp]: "registry (execute_tool env name args g) = registry g"
  unfolding execute_tool_def Let_def by (simp split: option.split sum.split)

lemma registry_tool_command [simp]: "registry (tool_command env rest g) = registry g"
  unfolding tool_command_def Let_def by (simp split: prod.split sum.split)

lemma interactive_loop_registry:
  "interactive_loop fuel env line g = Some g' \<Longrightarrow> registry g' = registry g"
proof (induction fuel arbitrary: line g g')
  case 0
  then show ?case by (simp add: interactive_loop.simps)
next
  case (Suc fuel)
  let ?g1 = "out (nl @ ''mcp> '') g"
  obtain cin' line' where gl: "getline (cin ?g1) line = (cin', line')"
    by (cases "getline (cin ?g1) line") auto
  let ?g2 = "?g1\<lparr>cin := cin'\<rparr>"
  have g2: "registry ?g2 = registry g" by simp
  obtain command rest where ew: "extract_word line' = (command, rest)"
    by (cases "extract_word line'") auto
  have step: "interactive_loop (Suc fuel) env line g =
     (if line' = [] then interactive_loop fuel env line' ?g2
      else if command = ''exit'' \<or> command = ''quit'' then Some ?g2
      else if command = ''tools'' then interactive_loop fuel env line' (display_tools ?g2)
      else if command = ''servers'' then interactive_loop fuel env line' (display_servers ?g2)
      else if command = ''tool'' then interactive_loop fuel env line' (tool_command env rest ?g2)
      else if command = ''help'' then
        (case interactive_loop fuel env [] (print_instructions ?g2) of
           None \<Rightarrow> None
         | Some g3 \<Rightarrow> interactive_loop fuel env line' g3)
      else interactive_loop fuel env line'
             (err (''Unknown command: '' @ sq @ c_str command @ sq @ ''. Type '' @ sq
                   @ ''help'' @ sq @ '' for a list of commands.'' @ nl) ?g2))"
    by (simp only: interactive_loop.simps Let_def gl ew prod.case)
  consider (c_empty) "line' = []"
    | (c_exit) "line' \<noteq> []" "command = ''exit'' \<or> command = ''quit''"
    | (c_tools) "line' \<noteq> []" "\<not> (command = ''exit'' \<or> command = ''quit'')" "command = ''tools''"
    | (c_servers) "line' \<noteq> []" "\<not> (command = ''exit'' \<or> command = ''quit'')" "command \<noteq> ''tools''"
        "command = ''servers''"
    | (c_tool) "line' \<noteq> []" "\<not> (command = ''exit'' \<or> command = ''quit'')" "command \<noteq> ''tools''"
        "command \<noteq> ''servers''" "command = ''tool''"
    | (c_help) "line' \<noteq> []" "\<not> (command = ''exit'' \<or> command = ''quit'')" "command \<noteq> ''tools''"
        "command \<noteq> ''servers''" "command \<noteq> ''tool''" "command = ''help''"
    | (c_unknown) "line' \<noteq> []" "\<not> (command = ''exit'' \<or> command = ''quit'')" "command \<noteq> ''tools''"
        "command \<noteq> ''servers''" "command \<noteq> ''tool''" "command \<noteq> ''help''"
    by argo
  then show ?case
  proof cases
    case c_empty
    with Suc.prems step have "interactive_loop fuel env line' ?g2 = Some g'" by simp
    from Suc.IH [OF this] g2 show ?thesis by simp
  next
    case c_exit
    with Suc.prems step have "g' = ?g2" by simp
    with g2 show ?thesis by simp
  next
    case c_tools
    with Suc.prems step have "interactive_loop fuel env line' (display_tools ?g2) = Some g'"
      by simp
    from Suc.IH [OF this] show ?thesis by simp
  next
    case c_servers
    with Suc.prems step have "interactive_loop fuel env line' (display_servers ?g2) = Some g'"
      by simp
    from Suc.IH [OF this] show ?thesis by simp
  next
    case c_tool
    with Suc.prems step have "interactive_loop fuel env line' (tool_command env rest ?g2) = Some g'"
      by simp
    from Suc.IH [OF this] show ?thesis by simp
  next
    case c_help
    with Suc.prems step have
      "(case interactive_loop fuel env [] (print_instructions ?g2) of
           None \<Rightarrow> None
         | Some g3 \<Rightarrow> interactive_loop fuel env line' g3) = Some g'"
      by simp
    then obtain g3 where g3: "interactive_loop fuel env [] (print_instructions ?g2) = Some g3"
      "interactive_loop fuel env line' g3 = Some g'"
      by (auto split: option.splits)
    from Suc.IH [OF g3(1)] Suc.IH [OF g3(2)] show ?thesis by simp
  next
    case c_unknown
    with Suc.prems step have "interactive_loop fuel env line'
             (err (''Unknown command: '' @ sq @ c_str command @ sq @ ''. Type '' @ sq
                   @ ''help'' @ sq @ '' for a list of commands.'' @ nl) ?g2) = Some g'"
      by simp
    from Suc.IH [OF this] show ?thesis by simp
  qed
qed

section \<open>Properties of configuration parsing\<close>

lemma stoi_9001: "stoi ''9001'' = Inr 9001"
  by (simp add: stoi_def isspace_def isdigit_def digits_val_def digit_val_def)

lemma stoi_9002: "stoi ''9002'' = Inr 9002"
  by (simp add: stoi_def isspace_def isdigit_def digits_val_def digit_val_def)


lemma scenario_parse: "parse_config scenario_argv = Inr scenario_config"
  by (simp add: parse_config_def scenario_argv_def scenario_config_def parse_config_loop.simps
        stoi_9001 stoi_9002)






section \<open>The scenarios, evaluated\<close>

lemmas scenario_defs =
  scenario_env_def scenario_config_def default_server_def provider_A_def provider_B_def
  search_tool_def fetch_tool_def twin_env_def twin_config_def twin_first_def twin_second_def

lemma scenario_connected:
  "connected_servers (startup scenario_env scenario_config (initial_globals stdin)) =
     [provider_A, provider_B]"
  by (simp add: startup_def scenario_defs connect_to_server_def Let_def emit_def out_def err_def
        empty_connection_def initial_globals_def)

lemma scenario_map:
  "tool_to_server_map (startup scenario_env scenario_config (initial_globals stdin)) =
     Mapping.update ''fetch'' ''B'' (Mapping.update ''search'' ''B''
       (Mapping.update ''search'' ''A'' Mapping.empty))"
  by (simp add: startup_def scenario_defs connect_to_server_def Let_def emit_def out_def err_def
        empty_connection_def initial_globals_def register_tools_def)

lemma twin_parse: "parse_config twin_argv = Inr twin_config"
  by (simp add: parse_config_def twin_argv_def twin_config_def parse_config_loop.simps stoi_9002)

lemma twin_connected:
  "connected_servers (startup twin_env twin_config (initial_globals stdin)) =
     [twin_first, twin_second]"
  by (simp add: startup_def scenario_defs connect_to_server_def Let_def emit_def out_def err_def
        empty_connection_def initial_globals_def)

lemma twin_map:
  "tool_to_server_map (startup twin_env twin_config (initial_globals stdin)) =
     Mapping.update ''fetch'' ''default-agent'' (Mapping.update ''search'' ''default-agent''
       (Mapping.update ''search'' ''default-agent'' Mapping.empty))"
  by (simp add: startup_def scenario_defs connect_to_server_def Let_def emit_def out_def err_def
        empty_connection_def initial_globals_def register_tools_def)

lemma scenario_startup_state:
  "startup scenario_env scenario_config (initial_globals stdin) =
     \<lparr>connected_servers = [provider_A, provider_B],
      tool_to_server_map =
        Mapping.update ''fetch'' ''B'' (Mapping.update ''search'' ''B''
          (Mapping.update ''search'' ''A'' Mapping.empty)),
      cin = stdin,
      trace =
        [Stdout (''Starting MCP client...'' @ nl),
         SseOpen ''localhost'' 8889,
         Stderr (''Error: Exception while connecting to '' @ sq @ ''default-agent'' @ sq
                 @ '': Connection refused'' @ nl),
         SseOpen ''hostA'' 9001, SseSetTimeout 5, SseInitialize ''llama-mcp-client'' ''0.1.0'',
         SseGetTools,
         Stdout (''Successfully connected to '' @ sq @ ''A'' @ sq @ '' (1 tools found)'' @ nl),
         SseOpen ''hostB'' 9002, SseSetTimeout 5, SseInitialize ''llama-mcp-client'' ''0.1.0'',
         SseGetTools,
         Stdout (''Successfully connected to '' @ sq @ ''B'' @ sq @ '' (2 tools found)'' @ nl)]\<rparr>"
  by (simp add: startup_def scenario_defs connect_to_server_def Let_def emit_def out_def err_def
        empty_connection_def initial_globals_def register_tools_def connect_exception_def
        c_str_def show_nat.simps)

lemma scenario_quiet: "show_instructions scenario_config = False"
  by (simp add: scenario_config_def)

section \<open>Stepping the interactive session\<close>

lemma loop_reads_line:
  assumes "good (cin g)" and "pending (cin g) = l # ls" and "l \<noteq> []"
    and "extract_word l = (command, rest)"
  shows "interactive_loop (Suc fuel) env line g =
     (let g2 = g\<lparr>trace := trace g @ [Stdout (nl @ ''mcp> '')], cin := (cin g)\<lparr>pending := ls\<rparr>\<rparr>
      in if command = ''exit'' \<or> command = ''quit'' then Some g2
         else if command = ''tools'' then interactive_loop fuel env l (display_tools g2)
         else if command = ''servers'' then interactive_loop fuel env l (display_servers g2)
         else if command = ''tool'' then interactive_loop fuel env l (tool_command env rest g2)
         else if command = ''help'' then
           (case interactive_loop fuel env [] (print_instructions g2) of
              None \<Rightarrow> None
            | Some g3 \<Rightarrow> interactive_loop fuel env l g3)
         else interactive_loop fuel env l
                (err (''Unknown command: '' @ sq @ c_str command @ sq @ ''. Type '' @ sq
                      @ ''help'' @ sq @ '' for a list of commands.'' @ nl) g2))"
  using assms
  by (simp add: interactive_loop.simps getline_def out_def emit_def Let_def)


lemma foldl_out_trace: "foldl (\<lambda>g s. out s g) g xs = g\<lparr>trace := trace g @ map Stdout xs\<rparr>"
  by (induction xs arbitrary: g) (simp_all add: out_def emit_def)

lemma print_instructions_trace:
  "print_instructions g = g\<lparr>trace := trace g @ map Stdout instruction_lines\<rparr>"
  by (simp add: print_instructions_def foldl_out_trace)

lemma stdout_of_simps [simp]:
  "stdout_of [] = []"
  "stdout_of (Stdout s # tr) = s # stdout_of tr"
  "stdout_of (Stderr s # tr) = stdout_of tr"
  "stdout_of (SseOpen h p # tr) = stdout_of tr"
  "stdout_of (SseSetTimeout n # tr) = stdout_of tr"
  "stdout_of (SseInitialize a b # tr) = stdout_of tr"
  "stdout_of (SseGetTools # tr) = stdout_of tr"
  "stdout_of (SseCallTool k a j # tr) = stdout_of tr"
  by (simp_all add: stdout_of_def)

lemma stdout_of_map_Stdout [simp]: "stdout_of (map Stdout xs) = xs"
  by (induction xs) simp_all

lemma display_servers_trace:
  "display_servers g =
     g\<lparr>trace := trace g @ Stdout (nl @ ''--- Connected Servers ---'' @ nl)
          # map (\<lambda>server. Stdout (''- '' @ c_str (conn_name server) @ '' ('' @ c_str (conn_type server)
                   @ '') at '' @ c_str (client_host server) @ '':''
                   @ show_int (client_port server) @ nl)) (connected_servers g)\<rparr>"
proof -
  have "foldl (\<lambda>g server. out (f server) g) h cs = h\<lparr>trace := trace h @ map (\<lambda>s. Stdout (f s)) cs\<rparr>"
    for f :: "MCPServerConnection \<Rightarrow> string" and h :: "'a globals" and cs
    by (induction cs arbitrary: h) (simp_all add: out_def emit_def)
  then show ?thesis
    by (simp add: display_servers_def out_def emit_def)
qed


lemma word_help: "extract_word ''help'' = (''help'', [])"
  by (simp add: extract_word_def isspace_def)

lemma word_exit: "extract_word ''exit'' = (''exit'', [])"
  by (simp add: extract_word_def isspace_def)

lemma word_servers: "extract_word ''servers'' = (''servers'', [])"
  by (simp add: extract_word_def isspace_def)

lemma help_then_exit:
  assumes "good (cin g)" and "pending (cin g) = ''help'' # ''exit'' # rest"
  shows "interactive_loop (Suc (Suc fuel)) env line g =
           interactive_loop (Suc fuel) env ''help''
             (g\<lparr>trace := trace g @ [Stdout (nl @ ''mcp> '')] @ map Stdout instruction_lines
                          @ [Stdout (nl @ ''mcp> '')],
                cin := (cin g)\<lparr>pending := rest\<rparr>\<rparr>)"
proof -
  let ?g2 = "g\<lparr>trace := trace g @ [Stdout (nl @ ''mcp> '')],
               cin := (cin g)\<lparr>pending := ''exit'' # rest\<rparr>\<rparr>"
  have outer: "interactive_loop (Suc (Suc fuel)) env line g =
      (case interactive_loop (Suc fuel) env [] (print_instructions ?g2) of
         None \<Rightarrow> None
       | Some g3 \<Rightarrow> interactive_loop (Suc fuel) env ''help'' g3)"
    by (simp add: loop_reads_line [OF assms(1) assms(2) _ word_help] Let_def)
  have inner: "interactive_loop (Suc fuel) env [] (print_instructions ?g2) =
      Some (g\<lparr>trace := trace g @ [Stdout (nl @ ''mcp> '')] @ map Stdout instruction_lines
                          @ [Stdout (nl @ ''mcp> '')],
              cin := (cin g)\<lparr>pending := rest\<rparr>\<rparr>)"
    using assms(1)
    by (subst loop_reads_line [where l = "''exit''" and ls = rest and command = "''exit''"
                                and rest = "[]"])
       (simp_all add: print_instructions_trace word_exit Let_def)
  show ?thesis by (simp add: outer inner)
qed

section \<open>A session with a help command\<close>

lemma scenario_session_run:
  "main 4 scenario_env scenario_argv session_input = Some (Returned 0, session_end)"
proof -
  let ?g = "startup scenario_env scenario_config (initial_globals session_input)"
  let ?prompt = "Stdout (nl @ ''mcp> '') :: string event"
  have g: "good (cin ?g)" "pending (cin ?g) = ''help'' # ''exit'' # [''servers'', ''exit'']"
    "connected_servers ?g = [provider_A, provider_B]"
    by (simp_all add: scenario_startup_state stdin_lines_def session_input_def)
  let ?g3 = "?g\<lparr>trace := trace ?g @ [?prompt] @ map Stdout instruction_lines @ [?prompt],
                cin := (cin ?g)\<lparr>pending := [''servers'', ''exit'']\<rparr>\<rparr>"
  let ?g4 = "?g3\<lparr>trace := trace ?g3 @ [?prompt], cin := (cin ?g3)\<lparr>pending := [''exit'']\<rparr>\<rparr>"
  let ?g5 = "display_servers ?g4"
  let ?g6 = "?g5\<lparr>trace := trace ?g5 @ [?prompt], cin := (cin ?g5)\<lparr>pending := []\<rparr>\<rparr>"
  have s1: "interactive_loop (Suc (Suc 2)) scenario_env [] ?g =
              interactive_loop (Suc 2) scenario_env ''help'' ?g3"
    by (rule help_then_exit [OF g(1) g(2)])
  have s2: "interactive_loop (Suc 2) scenario_env ''help'' ?g3 =
              interactive_loop 2 scenario_env ''servers'' ?g5"
    by (subst loop_reads_line [where l = "''servers''" and ls = "[''exit'']"
                                 and command = "''servers''" and rest = "[]"])
       (simp_all add: g(1) word_servers Let_def)
  have s3: "interactive_loop (Suc 1) scenario_env ''servers'' ?g5 = Some ?g6"
    by (subst loop_reads_line [where l = "''exit''" and ls = "[]"
                                 and command = "''exit''" and rest = "[]"])
       (simp_all add: g(1) word_exit Let_def display_servers_trace)
  have run: "run_interactive_mode 4 scenario_env scenario_config ?g = Some ?g6"
  proof -
    have "run_interactive_mode 4 scenario_env scenario_config ?g =
            interactive_loop (Suc (Suc 2)) scenario_env [] ?g"
      by (simp add: run_interactive_mode_def scenario_quiet eval_nat_numeral)
    also note s1
    also note s2
    also have "interactive_loop 2 scenario_env ''servers'' ?g5 =
                 interactive_loop (Suc 1) scenario_env ''servers'' ?g5"
      by (simp add: eval_nat_numeral)
    also note s3
    finally show ?thesis .
  qed
  have "main 4 scenario_env scenario_argv session_input =
          Some (Returned 0, out (''Exiting MCP client.'' @ nl) ?g6)"
    using g(3) by (simp add: main_def scenario_parse Let_def run)
  then show ?thesis
    by (simp only: session_end_def Let_def)
qed

lemma session_end_input: "pending (cin session_end) = []"
  by (simp add: session_end_def Let_def out_def emit_def)

lemma session_end_stdout:
  "stdout_of (trace session_end) =
     [''Starting MCP client...'' @ nl,
      ''Successfully connected to '' @ sq @ ''A'' @ sq @ '' (1 tools found)'' @ nl,
      ''Successfully connected to '' @ sq @ ''B'' @ sq @ '' (2 tools found)'' @ nl,
      nl @ ''mcp> '']
     @ instruction_lines
     @ [nl @ ''mcp> '',
        nl @ ''mcp> '',
        nl @ ''--- Connected Servers ---'' @ nl,
        ''- A (service) at hostA:9001'' @ nl,
        ''- B (service) at hostB:9002'' @ nl,
        nl @ ''mcp> '',
        ''Exiting MCP client.'' @ nl]"
proof -
  let ?g = "startup scenario_env scenario_config (initial_globals session_input)"
  have g: "connected_servers ?g = [provider_A, provider_B]"
    "stdout_of (trace ?g) =
       [''Starting MCP client...'' @ nl,
        ''Successfully connected to '' @ sq @ ''A'' @ sq @ '' (1 tools found)'' @ nl,
        ''Successfully connected to '' @ sq @ ''B'' @ sq @ '' (2 tools found)'' @ nl]"
    by (simp_all add: scenario_startup_state)
  show ?thesis
    by (simp add: session_end_def Let_def out_def emit_def display_servers_trace g
          provider_A_def provider_B_def c_str_def show_int_def show_nat.simps)
qed

section \<open>Resolution when the provider names differ\<close>

text \<open>
  When no provider connected earlier carries its name, the last held provider that offers
  an action is the one \<open>find_server_for_tool\<close> returns for it.
\<close>

lemma resolve_last_registered:
  assumes "connected_servers (startup env config (initial_globals stdin)) = pre @ b # post"
    and "offers b name"
    and "\<forall>s \<in> set post. \<not> offers s name"
    and "\<forall>s \<in> set pre. conn_name s \<noteq> conn_name b"
  shows "find_server_for_tool name (startup env config (initial_globals stdin)) = Some (length pre)"
proof -
  let ?g = "startup env config (initial_globals stdin)"
  have "tool_to_server_map ?g = registry_of (pre @ b # post)"
    using registry_built_startup [of env config stdin] assms(1) by (simp add: registry_built_def)
  then have "Mapping.lookup (tool_to_server_map ?g) name = Some (conn_name b)"
    using registry_of_last_offer [OF assms(2,3)] by simp
  then show ?thesis
    using first_named_first [OF refl assms(4)] assms(1)
    by (simp add: find_server_for_tool_def)
qed

text \<open>
  The scenario of the specification: A (offering \<open>search\<close>) and then B (offering
  \<open>search\<close> and \<open>fetch\<close>) connect. Both names resolve to B, the second held provider,
  and \<open>summarize\<close> resolves to nothing.
\<close>

lemma scenario_resolution:
  "connected_servers (startup scenario_env scenario_config (initial_globals (stdin_lines [])))
     = [provider_A, provider_B]
   \<and> find_server_for_tool ''search''
        (startup scenario_env scenario_config (initial_globals (stdin_lines []))) = Some 1
   \<and> find_server_for_tool ''fetch''
        (startup scenario_env scenario_config (initial_globals (stdin_lines []))) = Some 1
   \<and> find_server_for_tool ''summarize''
        (startup scenario_env scenario_config (initial_globals (stdin_lines []))) = None"
proof -
  let ?g = "startup scenario_env scenario_config (initial_globals (stdin_lines []))"
  have c: "connected_servers ?g = [provider_A] @ provider_B # []"
    by (simp add: scenario_connected)
  have s: "find_server_for_tool ''search'' ?g = Some (length [provider_A])"
    by (rule resolve_last_registered [OF c]) (simp_all add: offers_def scenario_defs)
  have f: "find_server_for_tool ''fetch'' ?g = Some (length [provider_A])"
    by (rule resolve_last_registered [OF c]) (simp_all add: offers_def scenario_defs)
  have n: "find_server_for_tool ''summarize'' ?g = None"
    by (simp add: find_server_for_tool_def scenario_map Mapping.lookup_update' Mapping.lookup_empty)
  from c s f n show ?thesis by simp
qed

section \<open>The claims\<close>

text \<open>
  C1 (the code departs from the claim). The command line adds a second server under the
  name of the default entry, \<open>default-agent\<close>; both connect, the first offering
  \<open>search\<close>, the second \<open>search\<close> and \<open>fetch\<close>. The name map stores the provider's name
  and \<open>find_server_for_tool\<close> returns the first held provider of that name, so \<open>search\<close>
  and \<open>fetch\<close> both resolve to the first provider, not to the one registered later, and
  \<open>execute_tool\<close> sends the call for \<open>fetch\<close> to the first provider, which does not
  offer it.
\<close>

theorem resolve_same_name_returns_first:
  "parse_config twin_argv = Inr twin_config
   \<and> connected_servers (startup twin_env twin_config (initial_globals (stdin_lines [])))
       = [twin_first, twin_second]
   \<and> offers twin_first ''search'' \<and> offers twin_second ''search''
   \<and> \<not> offers twin_first ''fetch'' \<and> offers twin_second ''fetch''
   \<and> find_server_for_tool ''search''
        (startup twin_env twin_config (initial_globals (stdin_lines []))) = Some 0
   \<and> find_server_for_tool ''fetch''
        (startup twin_env twin_config (initial_globals (stdin_lines []))) = Some 0
   \<and> tool_calls_of (trace (execute_tool twin_env ''fetch'' ''{}''
        (startup twin_env twin_config (initial_globals (stdin_lines [])))))
       = [(0, ''fetch'', ''{}'')]"
proof -
  let ?g = "startup twin_env twin_config (initial_globals (stdin_lines []))"
  have f: "find_server_for_tool ''search'' ?g = Some 0" "find_server_for_tool ''fetch'' ?g = Some 0"
    by (simp_all add: twin_connected twin_map find_server_for_tool_def
          Mapping.lookup_update' Mapping.lookup_empty twin_first_def)
  have o: "offers twin_first ''search''" "offers twin_second ''search''"
    "\<not> offers twin_first ''fetch''" "offers twin_second ''fetch''"
    by (simp_all add: offers_def twin_first_def twin_second_def search_tool_def fetch_tool_def)
  have c: "tool_calls_of (trace (execute_tool twin_env ''fetch'' ''{}'' ?g)) = [(0, ''fetch'', ''{}'')]"
    by (simp add: execute_tool_sends_call [OF f(2)] startup_tool_calls)
  show ?thesis by (intro conjI twin_parse twin_connected o f c)
qed

text \<open>
  C2 (the code departs from the claim). With the input \<open>help\<close>, \<open>exit\<close>, \<open>servers\<close>,
  \<open>exit\<close> the client does not stop at the first \<open>exit\<close>: \<open>help\<close> calls
  \<open>run_interactive_mode\<close> again, the first \<open>exit\<close> leaves only that inner loop, and the
  outer loop goes on to list the servers. The process ends at the second \<open>exit\<close>, when
  every line of the input has been read.
\<close>

theorem help_opens_nested_session:
  "map_option (\<lambda>(status, g). (status, pending (cin g), stdout_of (trace g)))
     (main 4 scenario_env scenario_argv (stdin_lines [''help'', ''exit'', ''servers'', ''exit'']))
   = Some (Returned 0, [],
       [''Starting MCP client...'' @ nl,
        ''Successfully connected to '' @ sq @ ''A'' @ sq @ '' (1 tools found)'' @ nl,
        ''Successfully connected to '' @ sq @ ''B'' @ sq @ '' (2 tools found)'' @ nl,
        nl @ ''mcp> '']
       @ instruction_lines
       @ [nl @ ''mcp> '',
          nl @ ''mcp> '',
          nl @ ''--- Connected Servers ---'' @ nl,
          ''- A (service) at hostA:9001'' @ nl,
          ''- B (service) at hostB:9002'' @ nl,
          nl @ ''mcp> '',
          ''Exiting MCP client.'' @ nl])"
  using scenario_session_run
  by (simp only: session_input_def option.map prod.case session_end_input session_end_stdout)

text \<open>
  C3. When parsing returns a configuration and every connection attempt fails, \<open>main\<close>
  returns 1 whatever the fuel: no provider is held, standard input is untouched, the only
  line on standard output is the start message (so no prompt was printed), and the last
  effect is the fatal message on standard error.
\<close>

theorem no_provider_is_fatal:
  assumes "parse_config argv = Inr config"
    and "\<forall>k < length (servers config). is_failure (handshake env k (servers config ! k))"
  shows "\<exists>g. main fuel env argv stdin = Some (Returned 1, g)
           \<and> connected_servers g = []
           \<and> cin g = stdin
           \<and> stdout_of (trace g) = [''Starting MCP client...'' @ nl]
           \<and> last (trace g) = Stderr fatal_message"
proof -
  let ?init = "out (''Starting MCP client...'' @ nl) (initial_globals stdin)"
  let ?g = "startup env config (initial_globals stdin)"
  from assms(2)
  have "\<forall>k < length (servers config). is_failure (handshake env (0 + k) (servers config ! k))"
    by simp
  from connect_all_all_fail [OF this, where g = ?init]
  have s: "connected_servers ?g = []" "cin ?g = stdin"
    "stdout_of (trace ?g) = [''Starting MCP client...'' @ nl]"
    by (simp_all add: startup_def out_def emit_def initial_globals_def)
  have m: "main fuel env argv stdin = Some (Returned 1, err fatal_message ?g)"
    using assms(1) s(1) by (simp add: main_def Let_def)
  show ?thesis
    using s by (simp add: m err_def emit_def)
qed

theorem no_provider_is_fatal_witness:
  "parse_config [''simple-mcp-client''] = Inr \<lparr>servers = [default_server], show_instructions = True\<rparr>
   \<and> is_failure (handshake scenario_env 0 default_server)
   \<and> (\<exists>g. main 0 scenario_env [''simple-mcp-client''] (stdin_lines [''tools'', ''exit''])
              = Some (Returned 1, g)
         \<and> connected_servers g = []
         \<and> cin g = stdin_lines [''tools'', ''exit'']
         \<and> stdout_of (trace g) = [''Starting MCP client...'' @ nl]
         \<and> last (trace g) = Stderr fatal_message)"
proof -
  have p: "parse_config [''simple-mcp-client'']
             = Inr \<lparr>servers = [default_server], show_instructions = True\<rparr>"
    by (simp add: parse_config_def parse_config_loop.simps)
  have f: "is_failure (handshake scenario_env 0 default_server)"
    by (simp add: is_failure_def scenario_env_def default_server_def)
  have a: "\<forall>k < length (servers \<lparr>servers = [default_server], show_instructions = True\<rparr>).
             is_failure (handshake scenario_env k
               (servers \<lparr>servers = [default_server], show_instructions = True\<rparr> ! k))"
    using f by simp
  from no_provider_is_fatal [OF p a] p f show ?thesis by blast
qed

text \<open>
  C4. For a name that is not a key of the name map, \<open>execute_tool\<close> writes one error line
  to standard error and does nothing else: the global collections and the input are as
  before, and no \<open>call_tool\<close> is sent to any provider.
\<close>

theorem unresolved_tool_contacts_no_provider:
  assumes "Mapping.lookup (tool_to_server_map g) name = None"
  shows "execute_tool env name args g =
           g\<lparr>trace := trace g @
               [Stderr (''Error: Tool '' @ sq @ c_str name @ sq
                        @ '' not found on any connected server.'' @ nl)]\<rparr>
         \<and> tool_calls_of (trace (execute_tool env name args g)) = tool_calls_of (trace g)"
  using assms
  by (simp add: execute_tool_def find_server_for_tool_def err_def emit_def tool_calls_of_def)

theorem unresolved_tool_contacts_no_provider_witness:
  "Mapping.lookup
     (tool_to_server_map (startup scenario_env scenario_config (initial_globals (stdin_lines []))))
     ''summarize'' = None
   \<and> execute_tool scenario_env ''summarize'' ''{}''
        (startup scenario_env scenario_config (initial_globals (stdin_lines []))) =
       (startup scenario_env scenario_config (initial_globals (stdin_lines [])))
         \<lparr>trace := trace (startup scenario_env scenario_config (initial_globals (stdin_lines []))) @
             [Stderr (''Error: Tool '' @ sq @ ''summarize'' @ sq
                      @ '' not found on any connected server.'' @ nl)]\<rparr>
   \<and> tool_calls_of (trace (execute_tool scenario_env ''summarize'' ''{}''
        (startup scenario_env scenario_config (initial_globals (stdin_lines []))))) = []"
proof -
  let ?g = "startup scenario_env scenario_config (initial_globals (stdin_lines []))"
  have n: "Mapping.lookup (tool_to_server_map ?g) ''summarize'' = None"
    by (simp add: scenario_map Mapping.lookup_update' Mapping.lookup_empty)
  have t: "tool_calls_of (trace ?g) = []"
    by (simp add: scenario_startup_state tool_calls_of_def)
  note th = unresolved_tool_contacts_no_provider [OF n, of scenario_env "''{}''"]
  have e1: "execute_tool scenario_env ''summarize'' ''{}'' ?g =
       ?g\<lparr>trace := trace ?g @
             [Stderr (''Error: Tool '' @ sq @ ''summarize'' @ sq
                      @ '' not found on any connected server.'' @ nl)]\<rparr>"
    using th [THEN conjunct1] by (simp add: c_str_def)
  have e2: "tool_calls_of (trace (execute_tool scenario_env ''summarize'' ''{}'' ?g)) = []"
    using th [THEN conjunct2] t by simp
  show ?thesis by (intro conjI n e1 e2)
qed

text \<open>
  C5. When the \<open>i\<close>-th connection attempt fails, \<open>connect_to_server\<close> returns false and
  leaves the global state as it was but for the effects of this one attempt, which are,
  in order: the transport is opened; unless that threw, the timeout is set and
  \<open>initialize\<close> is called once; unless that threw or returned false, \<open>get_tools\<close> is
  called once; and last the one line on standard error that reports the failure with the
  provider's name. Nothing is called a second time, the held providers and the name map
  are unchanged, the loop of \<open>main\<close> goes on with the remaining servers from that state
  without adding the provider, and over the whole loop every configured server has its
  transport opened exactly once, in order.
\<close>

theorem failed_connection_is_skipped:
  assumes "is_failure (handshake env i server_config)"
  shows
    "(let events =
        (case handshake env i server_config of
           OpenThrows what \<Rightarrow>
             [SseOpen (cfg_host server_config) (cfg_port server_config),
              Stderr (''Error: Exception while connecting to '' @ sq
                      @ c_str (cfg_name server_config) @ sq @ '': '' @ c_str what @ nl)]
         | InitializeThrows what \<Rightarrow>
             [SseOpen (cfg_host server_config) (cfg_port server_config), SseSetTimeout 5,
              SseInitialize ''llama-mcp-client'' ''0.1.0'',
              Stderr (''Error: Exception while connecting to '' @ sq
                      @ c_str (cfg_name server_config) @ sq @ '': '' @ c_str what @ nl)]
         | InitializeFalse \<Rightarrow>
             [SseOpen (cfg_host server_config) (cfg_port server_config), SseSetTimeout 5,
              SseInitialize ''llama-mcp-client'' ''0.1.0'',
              Stderr (''Error: Failed to initialize connection to '' @ sq
                      @ c_str (cfg_name server_config) @ sq @ '' at ''
                      @ c_str (cfg_host server_config) @ '':''
                      @ show_int (cfg_port server_config) @ nl)]
         | GetToolsThrows what \<Rightarrow>
             [SseOpen (cfg_host server_config) (cfg_port server_config), SseSetTimeout 5,
              SseInitialize ''llama-mcp-client'' ''0.1.0'', SseGetTools,
              Stderr (''Error: Exception while connecting to '' @ sq
                      @ c_str (cfg_name server_config) @ sq @ '': '' @ c_str what @ nl)]
         | ToolList ts \<Rightarrow> [])
      in connect_to_server (handshake env i server_config) server_config empty_connection g =
           (False,
            \<lparr>conn_name = cfg_name server_config, conn_type = cfg_type server_config,
             client_host = cfg_host server_config, client_port = cfg_port server_config,
             tools = []\<rparr>,
            g\<lparr>trace := trace g @ events\<rparr>)
         \<and> connect_all env i (server_config # rest) g =
             connect_all env (Suc i) rest (g\<lparr>trace := trace g @ events\<rparr>))
     \<and> opens (trace (connect_all env i (server_config # rest) g)) =
         opens (trace g) @ map (\<lambda>sc. (cfg_host sc, cfg_port sc)) (server_config # rest)"
proof (rule conjI)
  show "opens (trace (connect_all env i (server_config # rest) g)) =
         opens (trace g) @ map (\<lambda>sc. (cfg_host sc, cfg_port sc)) (server_config # rest)"
    by (rule connect_all_opens)
  show "let events =
        (case handshake env i server_config of
           OpenThrows what \<Rightarrow>
             [SseOpen (cfg_host server_config) (cfg_port server_config),
              Stderr (''Error: Exception while connecting to '' @ sq
                      @ c_str (cfg_name server_config) @ sq @ '': '' @ c_str what @ nl)]
         | InitializeThrows what \<Rightarrow>
             [SseOpen (cfg_host server_config) (cfg_port server_config), SseSetTimeout 5,
              SseInitialize ''llama-mcp-client'' ''0.1.0'',
              Stderr (''Error: Exception while connecting to '' @ sq
                      @ c_str (cfg_name server_config) @ sq @ '': '' @ c_str what @ nl)]
         | InitializeFalse \<Rightarrow>
             [SseOpen (cfg_host server_config) (cfg_port server_config), SseSetTimeout 5,
              SseInitialize ''llama-mcp-client'' ''0.1.0'',
              Stderr (''Error: Failed to initialize connection to '' @ sq
                      @ c_str (cfg_name server_config) @ sq @ '' at ''
                      @ c_str (cfg_host server_config) @ '':''
                      @ show_int (cfg_port server_config) @ nl)]
         | GetToolsThrows what \<Rightarrow>
             [SseOpen (cfg_host server_config) (cfg_port server_config), SseSetTimeout 5,
              SseInitialize ''llama-mcp-client'' ''0.1.0'', SseGetTools,
              Stderr (''Error: Exception while connecting to '' @ sq
                      @ c_str (cfg_name server_config) @ sq @ '': '' @ c_str what @ nl)]
         | ToolList ts \<Rightarrow> [])
      in connect_to_server (handshake env i server_config) server_config empty_connection g =
           (False,
            \<lparr>conn_name = cfg_name server_config, conn_type = cfg_type server_config,
             client_host = cfg_host server_config, client_port = cfg_port server_config,
             tools = []\<rparr>,
            g\<lparr>trace := trace g @ events\<rparr>)
         \<and> connect_all env i (server_config # rest) g =
             connect_all env (Suc i) rest (g\<lparr>trace := trace g @ events\<rparr>)"
    using assms
    by (cases "handshake env i server_config")
       (simp_all add: is_failure_def connect_to_server_def Let_def emit_def err_def
          connect_exception_def empty_connection_def)
qed


theorem failed_connection_is_skipped_witness:
  "is_failure (handshake scenario_env 0 default_server)
   \<and> connect_to_server (handshake scenario_env 0 default_server) default_server
        empty_connection scenario_initial =
       (False,
        \<lparr>conn_name = ''default-agent'', conn_type = ''llama-agent'', client_host = ''localhost'',
         client_port = 8889, tools = []\<rparr>,
        scenario_initial\<lparr>trace := trace scenario_initial @
          [SseOpen ''localhost'' 8889,
           Stderr (''Error: Exception while connecting to '' @ sq @ ''default-agent'' @ sq
                   @ '': Connection refused'' @ nl)]\<rparr>)
   \<and> connect_all scenario_env 0 (default_server # tl (servers scenario_config)) scenario_initial =
       connect_all scenario_env (Suc 0) (tl (servers scenario_config))
         (scenario_initial\<lparr>trace := trace scenario_initial @
            [SseOpen ''localhost'' 8889,
             Stderr (''Error: Exception while connecting to '' @ sq @ ''default-agent'' @ sq
                     @ '': Connection refused'' @ nl)]\<rparr>)
   \<and> opens (trace (connect_all scenario_env 0 (default_server # tl (servers scenario_config))
        scenario_initial)) =
       opens (trace scenario_initial)
         @ map (\<lambda>sc. (cfg_host sc, cfg_port sc)) (default_server # tl (servers scenario_config))"
proof -
  have h: "handshake scenario_env 0 default_server = OpenThrows ''Connection refused''"
    by (simp add: scenario_env_def default_server_def)
  have f: "is_failure (handshake scenario_env 0 default_server)"
    by (simp add: h is_failure_def)
  have d: "cfg_name default_server = ''default-agent''" "cfg_type default_server = ''llama-agent''"
    "cfg_host default_server = ''localhost''" "cfg_port default_server = 8889"
    by (simp_all add: default_server_def)
  note th = failed_connection_is_skipped
              [OF f, where g = scenario_initial and rest = "tl (servers scenario_config)"]
  have a: "connect_to_server (handshake scenario_env 0 default_server) default_server
        empty_connection scenario_initial =
       (False,
        \<lparr>conn_name = ''default-agent'', conn_type = ''llama-agent'', client_host = ''localhost'',
         client_port = 8889, tools = []\<rparr>,
        scenario_initial\<lparr>trace := trace scenario_initial @
          [SseOpen ''localhost'' 8889,
           Stderr (''Error: Exception while connecting to '' @ sq @ ''default-agent'' @ sq
                   @ '': Connection refused'' @ nl)]\<rparr>)"
    using th [THEN conjunct1]
    by (simp add: Let_def h d c_str_def del: connect_all.simps)
  have b: "connect_all scenario_env 0 (default_server # tl (servers scenario_config)) scenario_initial =
       connect_all scenario_env (Suc 0) (tl (servers scenario_config))
         (scenario_initial\<lparr>trace := trace scenario_initial @
            [SseOpen ''localhost'' 8889,
             Stderr (''Error: Exception while connecting to '' @ sq @ ''default-agent'' @ sq
                     @ '': Connection refused'' @ nl)]\<rparr>)"
    using th [THEN conjunct1]
    by (simp add: Let_def h d c_str_def del: connect_all.simps)
  show ?thesis by (intro conjI f a b th [THEN conjunct2])
qed


text \<open>
  C6. When the budget (prompt length plus \<open>n_predict\<close>) is at most the prompt length, that
  is when \<open>n_predict\<close> is not positive, the generation loop is left at once by its
  condition: it returns normally with the state it started from, so nothing was decoded,
  sampled or printed, \<open>n_decode\<close> is 0 and the response text is empty. Prompt length and
  \<open>n_predict\<close> are \<^verbatim>\<open>int\<close> values.
\<close>

theorem generation_budget_within_prompt:
  assumes "length prompt_tokens < 2 ^ 31"
    and "- (2 ^ 31) \<le> n_predict"
    and "int (length prompt_tokens) + n_predict \<le> int (length prompt_tokens)"
  shows "main_generation_loop eng prompt_tokens n_predict =
           Inr \<lparr>n_pos = 0, batch = prompt_tokens, n_decode = 0, response_text = [],
                decoded = [], gen_trace = []\<rparr>"
proof -
  let ?n = "int (length prompt_tokens)"
  have n: "0 \<le> ?n" "?n < 2 ^ 31" using assms(1) by simp_all
  have l: "wrap32 ?n = ?n" using n by (intro wrap32_id) simp_all
  have r: "wrap32 (?n + n_predict) = ?n + n_predict"
    using n assms(2,3) by (intro wrap32_id) linarith+
  have "\<not> wrap32 (0 + ?n) < wrap32 (?n + n_predict)"
    using l r assms(3) by simp
  then show ?thesis
    unfolding main_generation_loop_def
    by (subst generation_loop.simps) simp
qed

theorem generation_budget_within_prompt_witness:
  "length [1, 2, 3 :: llama_token] < 2 ^ 31
   \<and> - (2 ^ 31) \<le> (- 2 :: int)
   \<and> int (length [1, 2, 3 :: llama_token]) + (- 2) \<le> int (length [1, 2, 3 :: llama_token])
   \<and> main_generation_loop idle_engine [1, 2, 3] (- 2) =
       Inr \<lparr>n_pos = 0, batch = [1, 2, 3], n_decode = 0, response_text = [], decoded = [],
            gen_trace = []\<rparr>"
proof -
  have a: "length [1, 2, 3 :: llama_token] < 2 ^ 31" by simp
  have b: "- (2 ^ 31) \<le> (- 2 :: int)" by simp
  have c: "int (length [1, 2, 3 :: llama_token]) + (- 2) \<le> int (length [1, 2, 3 :: llama_token])"
    by simp
  from generation_budget_within_prompt [OF a b c, of idle_engine] a b c
  show ?thesis by blast
qed

text \<open>
  C7. Under the confirmation policy, for a \<open>shell_command\<close> call whose arguments decode
  and an operator answer (the next input line) other than \<open>y\<close> and \<open>Y\<close>: the call is
  declined. The effects are the three lines describing the call, the question and the
  line that the execution is cancelled; no process is opened, no error line is printed,
  and the loop goes on with the remaining calls.
\<close>

theorem declined_command_is_skipped:
  assumes "confirm_commands"
    and "tc_name tool_call = ''shell_command''"
    and "fc_json_parse env (tc_arguments tool_call) = Inr args"
    and "fc_json_command env args = Inr command"
    and "getline (fc_cin io) [] = (cin', answer)"
    and "answer \<noteq> ''y''" and "answer \<noteq> ''Y''"
  shows "handle_tool_call env confirm_commands tool_call io =
           io\<lparr>fc_cin := cin',
              fc_trace := fc_trace io @
                 [FcStdout (''  Function: '' @ c_str (tc_name tool_call) @ nl),
                  FcStdout (''  Arguments: '' @ c_str (tc_arguments tool_call) @ nl),
                  FcStdout (''  Command: '' @ c_str command @ nl),
                  FcStdout ''  Execute this command? (y/N): '',
                  FcStdout (''  Command execution cancelled.'' @ nl)]\<rparr>
         \<and> execute_tool_calls env confirm_commands (tool_call # rest) io =
             execute_tool_calls env confirm_commands rest
               (handle_tool_call env confirm_commands tool_call io)"
  using assms by (simp add: handle_tool_call_def Let_def printf_def fc_emit_def)

theorem declined_command_is_skipped_witness:
  "tc_name shell_call = ''shell_command''
   \<and> fc_json_parse shell_env (tc_arguments shell_call) = Inr echo_payload
   \<and> fc_json_command shell_env echo_payload = Inr ''echo hi''
   \<and> getline (fc_cin (operator_says [''n''])) [] = (\<lparr>pending = [], partial = [], good = True\<rparr>, ''n'')
   \<and> handle_tool_call shell_env True shell_call (operator_says [''n'']) =
       (operator_says [''n''])
         \<lparr>fc_cin := \<lparr>pending = [], partial = [], good = True\<rparr>,
          fc_trace := fc_trace (operator_says [''n'']) @
             [FcStdout (''  Function: '' @ c_str (tc_name shell_call) @ nl),
              FcStdout (''  Arguments: '' @ c_str (tc_arguments shell_call) @ nl),
              FcStdout (''  Command: '' @ c_str ''echo hi'' @ nl),
              FcStdout ''  Execute this command? (y/N): '',
              FcStdout (''  Command execution cancelled.'' @ nl)]\<rparr>
   \<and> execute_tool_calls shell_env True (shell_call # [weather_call]) (operator_says [''n'']) =
       execute_tool_calls shell_env True [weather_call]
         (handle_tool_call shell_env True shell_call (operator_says [''n'']))"
proof -
  have a: "tc_name shell_call = ''shell_command''"
    by (simp add: shell_call_def)
  have b: "fc_json_parse shell_env (tc_arguments shell_call) = Inr echo_payload"
    by (simp add: shell_env_def shell_call_def)
  have c: "fc_json_command shell_env echo_payload = Inr ''echo hi''"
    by (simp add: shell_env_def)
  have d: "getline (fc_cin (operator_says [''n''])) []
             = (\<lparr>pending = [], partial = [], good = True\<rparr>, ''n'')"
    by (simp add: getline_def operator_says_def)
  have e: "''n'' \<noteq> ''y''" "''n'' \<noteq> ''Y''" by simp_all
  note th = declined_command_is_skipped [OF TrueI a b c d e, of "[weather_call]"]
  show ?thesis by (intro conjI a b c d th [THEN conjunct1] th [THEN conjunct2])
qed

text \<open>
  C8 (the code departs from the claim). With the same command line as for C1, after
  startup the keys \<open>fetch\<close> and \<open>search\<close> map to the name \<open>default-agent\<close>, which two
  different held providers carry: the keys do not correspond to exactly one held provider.
\<close>

theorem same_name_key_has_two_holders:
  "parse_config twin_argv = Inr twin_config
   \<and> connected_servers (startup twin_env twin_config (initial_globals (stdin_lines [])))
       = [twin_first, twin_second]
   \<and> twin_first \<noteq> twin_second
   \<and> Mapping.lookup
        (tool_to_server_map (startup twin_env twin_config (initial_globals (stdin_lines []))))
        ''fetch'' = Some ''default-agent''
   \<and> holders ''fetch'' (startup twin_env twin_config (initial_globals (stdin_lines []))) = [0, 1]
   \<and> holders ''search'' (startup twin_env twin_config (initial_globals (stdin_lines []))) = [0, 1]"
proof -
  let ?g = "startup twin_env twin_config (initial_globals (stdin_lines []))"
  have d: "twin_first \<noteq> twin_second"
    by (simp add: twin_first_def twin_second_def)
  have l: "Mapping.lookup (tool_to_server_map ?g) ''fetch'' = Some ''default-agent''"
    by (simp add: twin_map Mapping.lookup_update' Mapping.lookup_empty)
  have h: "holders ''fetch'' ?g = [0, 1]" "holders ''search'' ?g = [0, 1]"
    by (simp_all add: holders_def twin_map twin_connected Mapping.lookup_update'
          Mapping.lookup_empty twin_first_def twin_second_def upt_rec)
  show ?thesis by (intro conjI twin_parse twin_connected d l h)
qed




text \<open>
  C10. A tool call whose name is not \<open>shell_command\<close> only has its name and arguments
  printed: nothing else is written (no error line), no process is opened, the input is
  not read, and the loop handles the calls before and after it as it would otherwise.
\<close>

theorem other_tool_is_only_printed:
  assumes "tc_name tool_call \<noteq> ''shell_command''"
  shows "handle_tool_call env confirm_commands tool_call io =
           io\<lparr>fc_trace := fc_trace io @
                 [FcStdout (''  Function: '' @ c_str (tc_name tool_call) @ nl),
                  FcStdout (''  Arguments: '' @ c_str (tc_arguments tool_call) @ nl)]\<rparr>
         \<and> execute_tool_calls env confirm_commands (before @ tool_call # rest) io0 =
             execute_tool_calls env confirm_commands rest
               (handle_tool_call env confirm_commands tool_call
                  (execute_tool_calls env confirm_commands before io0))"
proof
  show "handle_tool_call env confirm_commands tool_call io =
           io\<lparr>fc_trace := fc_trace io @
                 [FcStdout (''  Function: '' @ c_str (tc_name tool_call) @ nl),
                  FcStdout (''  Arguments: '' @ c_str (tc_arguments tool_call) @ nl)]\<rparr>"
    using assms by (simp add: handle_tool_call_def Let_def printf_def fc_emit_def)
  show "execute_tool_calls env confirm_commands (before @ tool_call # rest) io0 =
             execute_tool_calls env confirm_commands rest
               (handle_tool_call env confirm_commands tool_call
                  (execute_tool_calls env confirm_commands before io0))"
    by (induction before arbitrary: io0) simp_all
qed

theorem other_tool_is_only_printed_witness:
  "tc_name weather_call \<noteq> ''shell_command''
   \<and> handle_tool_call shell_env False weather_call (operator_says []) =
       (operator_says [])
         \<lparr>fc_trace := fc_trace (operator_says []) @
             [FcStdout (''  Function: '' @ c_str (tc_name weather_call) @ nl),
              FcStdout (''  Arguments: '' @ c_str (tc_arguments weather_call) @ nl)]\<rparr>
   \<and> execute_tool_calls shell_env False ([shell_call] @ weather_call # [shell_call])
        (operator_says []) =
       execute_tool_calls shell_env False [shell_call]
         (handle_tool_call shell_env False weather_call
            (execute_tool_calls shell_env False [shell_call] (operator_says [])))"
proof -
  have a: "tc_name weather_call \<noteq> ''shell_command''"
    by (simp add: weather_call_def)
  note th = other_tool_is_only_printed
              [OF a, of shell_env False "operator_says []" "[shell_call]" "[shell_call]"
                 "operator_says []"]
  show ?thesis by (intro conjI a th [THEN conjunct1] th [THEN conjunct2])
qed

end
